theory Spec2Isabelle
  imports Complex_Main "HOL-Library.Sublist" "HOL-Library.Log_Nat"
begin

section \<open>Values of the platform\<close>

text \<open>
  The action is one TypeScript module, kept in the repository in two variants:
  \<^verbatim>\<open>src/index.ts\<close> and \<^verbatim>\<open>src/unnamed/part_000\<close>. The functions \<open>getRepo\<close>,
  \<open>getRelease\<close>, \<open>printOutput\<close>, \<open>filterByFileName\<close> and \<open>filterByRegex\<close> are the same
  in both; \<open>baseFetchFile\<close>, \<open>fetchAssetFile\<close>, \<open>fetchSourceFile\<close> and \<open>main\<close>
  differ, and the definitions taken from \<^verbatim>\<open>part_000\<close> carry the suffix \<open>_p0\<close>.
  What the module gets from its packages and from Node (\<open>@actions/core\<close>, the API
  client, \<open>fetch\<close>, \<open>async-retry\<close>, \<open>fs\<close>, \<open>path\<close>, regular expressions, \<open>Number\<close>) is
  modelled after the documentation of those, or is a parameter of the run.

  Strings are lists of \<open>char\<close>, read as code units below 256. An exception or a rejected
  promise is a value \<open>Inl e\<close>; a normal return or a fulfilled promise is \<open>Inr v\<close>.
\<close>

datatype error =
    Error string
  | TypeError string
  | SyntaxError string
  | FetchError
  | RequestError nat
  | FsError string

subsection \<open>\<open>String.prototype.split\<close> with a one-character separator\<close>

fun split :: "char \<Rightarrow> string \<Rightarrow> string list" where
  "split sep [] = [[]]"
| "split sep (c # cs) =
     (if c = sep then [] # split sep cs
      else (case split sep cs of [] \<Rightarrow> [[c]] | p # ps \<Rightarrow> (c # p) # ps))"

text \<open>Reading an index of a JavaScript array: \<open>None\<close> is \<open>undefined\<close>.\<close>

fun elem_at :: "'a list \<Rightarrow> nat \<Rightarrow> 'a option" where
  "elem_at [] i = None"
| "elem_at (x # xs) 0 = Some x"
| "elem_at (x # xs) (Suc i) = elem_at xs i"

section \<open>\<open>getRepo\<close>\<close>

record GetRepoResult =
  owner :: string
  repo :: string

text \<open>The part of \<open>Context\<close> that the module reads: \<open>context.repo\<close>.\<close>

record Context =
  context_repo :: GetRepoResult

definition getRepo :: "string \<Rightarrow> Context \<Rightarrow> error + GetRepoResult" where
  "getRepo inputRepoString context =
     (if inputRepoString = [] then
        Inr \<lparr>owner = owner (context_repo context), repo = repo (context_repo context)\<rparr>
      else
        (let parts = split (CHR ''/'') inputRepoString in
         case (elem_at parts 0, elem_at parts (Suc 0)) of
           (Some owner', Some repo') \<Rightarrow> Inr \<lparr>owner = owner', repo = repo'\<rparr>
         | _ \<Rightarrow> Inl (Error ''Malformed repo'')))"

section \<open>JavaScript numbers: \<open>Number\<close> and \<open>Math.trunc\<close>\<close>

text \<open>
  \<open>Number(version)\<close> is the coercion \<open>StringToNumber\<close> of ECMAScript: white space is
  trimmed, the empty string is 0, the rest must be a \<open>StrNumericLiteral\<close> (a signed decimal
  literal with optional fraction and exponent, \<open>Infinity\<close>, or an unsigned literal with
  prefix \<open>0x\<close>, \<open>0o\<close>, \<open>0b\<close>); anything else is \<open>NaN\<close>. A finite value is rounded to
  the nearest IEEE double, ties to even, and is kept here as the rational it equals. The sign
  of zero is not kept (it does not show in a request).
\<close>

datatype js_number = NaN | PosInfinity | NegInfinity | Finite rat

definition isStrWhiteSpaceChar :: "char \<Rightarrow> bool" where
  "isStrWhiteSpaceChar c \<longleftrightarrow>
     c \<in> {CHR 0x09, CHR 0x0A, CHR 0x0B, CHR 0x0C, CHR 0x0D, CHR 0x20, CHR 0xA0}"

definition trim :: "string \<Rightarrow> string" where
  "trim s = rev (dropWhile isStrWhiteSpaceChar (rev (dropWhile isStrWhiteSpaceChar s)))"

definition digit_value :: "char \<Rightarrow> int option" where
  "digit_value c =
     (let n = (of_char c :: int) in
      if 48 \<le> n \<and> n \<le> 57 then Some (n - 48)
      else if 97 \<le> n \<and> n \<le> 102 then Some (n - 87)
      else if 65 \<le> n \<and> n \<le> 70 then Some (n - 55)
      else None)"

definition isDigit :: "int \<Rightarrow> char \<Rightarrow> bool" where
  "isDigit radix c = (case digit_value c of Some d \<Rightarrow> d < radix | None \<Rightarrow> False)"

definition digits_value :: "int \<Rightarrow> string \<Rightarrow> int" where
  "digits_value radix ds =
     foldl (\<lambda>acc c. acc * radix + (case digit_value c of Some d \<Rightarrow> d | None \<Rightarrow> 0)) 0 ds"

definition pow2 :: "int \<Rightarrow> rat" where
  "pow2 k = (if 0 \<le> k then 2 ^ nat k else 1 / 2 ^ nat (- k))"

definition floor_log2 :: "rat \<Rightarrow> int" where
  "floor_log2 a =
     (let (n, d) = quotient_of a; k = bitlen n - bitlen d
      in if pow2 k \<le> a then k else k - 1)"

definition round_half_even :: "rat \<Rightarrow> int" where
  "round_half_even q =
     (let f = \<lfloor>q\<rfloor>; r = q - of_int f
      in if r < 1 / 2 then f else if 1 / 2 < r then f + 1 else if even f then f else f + 1)"

definition round_double :: "rat \<Rightarrow> js_number" where
  "round_double a =
     (let e = max (floor_log2 a) (- 1022);
          ulp = pow2 (e - 52);
          v = of_int (round_half_even (a / ulp)) * ulp
      in if pow2 1024 \<le> v then PosInfinity else Finite v)"

definition negate :: "js_number \<Rightarrow> js_number" where
  "negate x = (case x of NaN \<Rightarrow> NaN | PosInfinity \<Rightarrow> NegInfinity
                 | NegInfinity \<Rightarrow> PosInfinity | Finite q \<Rightarrow> Finite (- q))"

definition to_double :: "rat \<Rightarrow> js_number" where
  "to_double q =
     (if q = 0 then Finite 0 else if 0 < q then round_double q else negate (round_double (- q)))"

definition StrUnsignedDecimalLiteral :: "string \<Rightarrow> js_number" where
  "StrUnsignedDecimalLiteral s =
     (if s = ''Infinity'' then PosInfinity
      else
        (let ip = takeWhile (isDigit 10) s;
             r1 = dropWhile (isDigit 10) s;
             (fp, r2) = (case r1 of
                           c # t \<Rightarrow> if c = CHR ''.''
                                    then (takeWhile (isDigit 10) t, dropWhile (isDigit 10) t)
                                    else ([], r1)
                         | [] \<Rightarrow> ([], []));
             mantissa = (of_int (digits_value 10 (ip @ fp)) :: rat) / 10 ^ length fp
         in if ip = [] \<and> fp = [] then NaN
            else
              (case r2 of
                 [] \<Rightarrow> to_double mantissa
               | c # t \<Rightarrow>
                   if c = CHR ''e'' \<or> c = CHR ''E'' then
                     (let (neg, ds) = (case t of
                                         x # u \<Rightarrow> if x = CHR ''+'' then (False, u)
                                                  else if x = CHR ''-'' then (True, u)
                                                  else (False, t)
                                       | [] \<Rightarrow> (False, []))
                      in if ds \<noteq> [] \<and> list_all (isDigit 10) ds then
                           to_double (if neg then mantissa / 10 ^ nat (digits_value 10 ds)
                                      else mantissa * 10 ^ nat (digits_value 10 ds))
                         else NaN)
                   else NaN)))"

definition NonDecimalIntegerLiteral :: "string \<Rightarrow> js_number option" where
  "NonDecimalIntegerLiteral s =
     (case s of
        z # x # ds \<Rightarrow>
          (let radix = (if x = CHR ''x'' \<or> x = CHR ''X'' then 16
                        else if x = CHR ''o'' \<or> x = CHR ''O'' then 8
                        else if x = CHR ''b'' \<or> x = CHR ''B'' then 2 else (0::int))
           in if z = CHR ''0'' \<and> radix \<noteq> 0 \<and> ds \<noteq> [] \<and> list_all (isDigit radix) ds
              then Some (to_double (of_int (digits_value radix ds)))
              else None)
      | _ \<Rightarrow> None)"

definition Number :: "string \<Rightarrow> js_number" where
  "Number str =
     (let s = trim str in
      if s = [] then Finite 0
      else
        (case NonDecimalIntegerLiteral s of
           Some n \<Rightarrow> n
         | None \<Rightarrow>
             (case s of
                c # t \<Rightarrow> if c = CHR ''+'' then StrUnsignedDecimalLiteral t
                         else if c = CHR ''-'' then negate (StrUnsignedDecimalLiteral t)
                         else StrUnsignedDecimalLiteral s
              | [] \<Rightarrow> Finite 0)))"

definition Math_trunc :: "js_number \<Rightarrow> js_number" where
  "Math_trunc x =
     (case x of Finite q \<Rightarrow> Finite (of_int (if 0 \<le> q then \<lfloor>q\<rfloor> else \<lceil>q\<rceil>)) | _ \<Rightarrow> x)"

section \<open>Releases, assets and the API client\<close>

record Asset =
  asset_id :: int
  asset_name :: string

text \<open>
  The fields of a release that the module reads. \<open>name\<close>, \<open>body\<close> and \<open>zipball_url\<close>
  may be \<open>null\<close> (\<open>None\<close>).
\<close>

record ReleaseData =
  tag_name :: string
  release_name :: "string option"
  release_body :: "string option"
  zipball_url :: "string option"
  assets :: "Asset list"

record GetReleaseResult =
  data :: ReleaseData

text \<open>The three calls of \<open>octokit.rest.repos\<close> that the module makes, with their arguments.\<close>

datatype rest_call =
    repos_getLatestRelease string string
  | repos_getReleaseByTag string string string
  | repos_getRelease string string js_number

text \<open>
  A JavaScript object used as a bag of request parameters: keys with values, in order. A
  missing key reads as \<open>undefined\<close>.
\<close>

datatype param = PUndefined | PString string | PNumber int

type_synonym RequestParameters = "(string \<times> param) list"

definition get_prop :: "RequestParameters \<Rightarrow> string \<Rightarrow> param" where
  "get_prop obj k = (case map_of obj k of None \<Rightarrow> PUndefined | Some v \<Rightarrow> v)"

text \<open>Assignment to a key of an object: the key keeps its place, a new key goes last.\<close>

fun assign :: "string \<Rightarrow> 'v \<Rightarrow> (string \<times> 'v) list \<Rightarrow> (string \<times> 'v) list" where
  "assign k v [] = [(k, v)]"
| "assign k v (kv # kvs) = (if fst kv = k then (k, v) # kvs else kv # assign k v kvs)"

function nat_digits :: "nat \<Rightarrow> string" where
  "nat_digits n =
     (if n < 10 then [char_of (48 + n)]
      else nat_digits (n div 10) @ [char_of (48 + n mod 10)])"
  by pat_completeness auto
termination
  by (relation "measure id") auto

text \<open>\<open>ToString\<close>, as a template literal applies it.\<close>

definition ToString :: "param \<Rightarrow> string" where
  "ToString v =
     (case v of
        PUndefined \<Rightarrow> ''undefined''
      | PString s \<Rightarrow> s
      | PNumber n \<Rightarrow> (if n < 0 then CHR ''-'' # nat_digits (nat (- n)) else nat_digits (nat n)))"

record EndpointOptions =
  request_method :: string
  url :: string
  headers :: "(string \<times> string) list option"
  body :: "string option"

text \<open>
  The client returned by \<open>github.getOctokit\<close>: \<open>rest\<close> answers a call of
  \<open>octokit.rest.repos\<close>, \<open>request_endpoint\<close> is \<open>octokit.request.endpoint\<close>, which expands
  a route and its parameters into the options of an HTTP request.
\<close>

record Octokit =
  rest :: "rest_call \<Rightarrow> error + GetReleaseResult"
  request_endpoint :: "string \<Rightarrow> RequestParameters \<Rightarrow> EndpointOptions"

section \<open>The world the action runs in\<close>

record FetchRequest =
  req_url :: string
  req_method :: string
  req_headers :: "(string \<times> string) list"
  req_body :: "string option"

text \<open>
  What \<open>fetch\<close> gives back: the promise rejects (no response), or there is a response with
  its \<open>ok\<close> flag and its body; a body that cannot be read to its end is \<open>None\<close>.
\<close>

datatype fetch_outcome = Rejected | Response bool "string option"

text \<open>
  The state that the module changes or that records what it did: the calls made to the API
  and to \<open>fetch\<close>, the warnings and outputs of \<open>@actions/core\<close>, the directories and files
  of the file system (named by their spelling) with the list of completed writes, the
  outcomes of promises that were started and never awaited, and the delays slept by the
  retry helper.
\<close>

record world =
  rest_calls :: "rest_call list"
  fetched :: "FetchRequest list"
  warnings :: "string list"
  outputs :: "(string \<times> string) list"
  dirs :: "string set"
  files :: "string \<rightharpoonup> string"
  written :: "(string \<times> string) list"
  floating :: "(error + unit) list"
  sleeps :: "nat list"

text \<open>
  What the run is given: the inputs of the step, the ambient context, the factory of API
  clients, the server behind \<open>fetch\<close> (it sees how many requests came before), and the
  regular-expression compiler: \<open>None\<close> for a pattern that does not compile, otherwise the
  matcher, which for an input and a start index gives the end index of a match or fails.
\<close>

record platform =
  inputs :: "string \<Rightarrow> string"
  github_context :: Context
  github_getOctokit :: "string \<Rightarrow> string option \<Rightarrow> error + Octokit"
  http :: "nat \<Rightarrow> FetchRequest \<Rightarrow> fetch_outcome"
  RegExp_compile :: "string \<Rightarrow> (string \<Rightarrow> nat \<Rightarrow> nat option) option"

definition octokit_rest :: "Octokit \<Rightarrow> rest_call \<Rightarrow> world \<Rightarrow> (error + GetReleaseResult) \<times> world" where
  "octokit_rest octokit c w = (rest octokit c, w\<lparr>rest_calls := rest_calls w @ [c]\<rparr>)"

definition fetch :: "platform \<Rightarrow> FetchRequest \<Rightarrow> world \<Rightarrow> fetch_outcome \<times> world" where
  "fetch pf req w = (http pf (length (fetched w)) req, w\<lparr>fetched := fetched w @ [req]\<rparr>)"

definition core_warning :: "string \<Rightarrow> world \<Rightarrow> world" where
  "core_warning message w = w\<lparr>warnings := warnings w @ [message]\<rparr>"

text \<open>
  \<open>core.setOutput\<close> turns its value into a string: \<open>null\<close> is the empty string, a string is
  itself, an \<open>Error\<close> object goes through \<open>JSON.stringify\<close>, which gives \<open>{}\<close>.
\<close>

datatype output_value = OString string | ONull | OError error

definition toCommandValue :: "output_value \<Rightarrow> string" where
  "toCommandValue v = (case v of OString s \<Rightarrow> s | ONull \<Rightarrow> [] | OError e \<Rightarrow> ''{}'')"

definition core_setOutput :: "string \<Rightarrow> output_value \<Rightarrow> world \<Rightarrow> world" where
  "core_setOutput name v w = w\<lparr>outputs := outputs w @ [(name, toCommandValue v)]\<rparr>"

definition nullable :: "string option \<Rightarrow> output_value" where
  "nullable v = (case v of None \<Rightarrow> ONull | Some s \<Rightarrow> OString s)"

section \<open>\<open>getRelease\<close>\<close>

record GetReleaseOptions = GetRepoResult +
  version :: string

definition isLineTerminator :: "char \<Rightarrow> bool" where
  "isLineTerminator c \<longleftrightarrow> c = CHR 0x0A \<or> c = CHR 0x0D"

text \<open>
  \<open>version.match(/^tags\/(.*)$/)\<close>: \<open>None\<close> is \<open>null\<close>, otherwise the first group. Without
  the flags \<open>m\<close> and \<open>s\<close> the pattern matches exactly the strings that start with \<open>tags/\<close>
  and hold no line terminator after it, and the group is all that follows the prefix.
\<close>

definition tagsMatch :: "string \<Rightarrow> string option" where
  "tagsMatch version' =
     (if take 5 version' = ''tags/'' \<and> \<not> list_ex isLineTerminator (drop 5 version')
      then Some (drop 5 version') else None)"

definition getRelease ::
  "Octokit \<Rightarrow> GetReleaseOptions \<Rightarrow> world \<Rightarrow> (error + GetReleaseResult) \<times> world" where
  "getRelease octokit opts w =
     (if version opts = ''latest'' then
        octokit_rest octokit (repos_getLatestRelease (owner opts) (repo opts)) w
      else
        (case tagsMatch (version opts) of
           Some (c # cs) \<Rightarrow>
             octokit_rest octokit (repos_getReleaseByTag (owner opts) (repo opts) (c # cs)) w
         | _ \<Rightarrow>
             octokit_rest octokit
               (repos_getRelease (owner opts) (repo opts) (Math_trunc (Number (version opts)))) w))"

section \<open>The file system: \<open>dirname\<close>, \<open>mkdir\<close>, \<open>writeFile\<close>\<close>

text \<open>
  \<open>path.dirname\<close> of POSIX paths, as Node computes it: trailing slashes and then the last
  component are dropped, from the right and never past the first character; what is left
  before the slash found is the result. No slash found gives \<open>/\<close> for a path that starts
  with one and \<open>.\<close> otherwise.
\<close>

definition dirname :: "string \<Rightarrow> string" where
  "dirname path =
     (case path of
        [] \<Rightarrow> ''.''
      | c # cs \<Rightarrow>
          (let hasRoot = (c = CHR ''/'');
               afterBase = dropWhile (\<lambda>x. x \<noteq> CHR ''/'')
                             (dropWhile (\<lambda>x. x = CHR ''/'') (rev cs))
           in case afterBase of
                [] \<Rightarrow> if hasRoot then ''/'' else ''.''
              | s # kept \<Rightarrow> if hasRoot \<and> kept = [] then ''//'' else c # rev kept))"

text \<open>A directory with the directories above it, up to the one that is its own \<open>dirname\<close>.\<close>

fun dir_chain_upto :: "nat \<Rightarrow> string \<Rightarrow> string list" where
  "dir_chain_upto 0 d = [d]"
| "dir_chain_upto (Suc n) d =
     (if dirname d \<noteq> d then d # dir_chain_upto n (dirname d) else [d])"

definition dir_chain :: "string \<Rightarrow> string list" where
  "dir_chain d = dir_chain_upto (length d) d"

text \<open>
  \<open>mkdir(d, {recursive: true})\<close>: \<open>d\<close> and the directories above it exist afterwards; it
  fails when one of them is a file. \<open>writeFile(p, data)\<close> creates the file or replaces its
  content; it fails when \<open>p\<close> is empty, ends in a slash or names a directory, or when the
  directory of \<open>p\<close> does not exist. Other failures of a file system (permissions, space)
  are not modelled.
\<close>

definition fs_mkdir_recursive :: "string \<Rightarrow> world \<Rightarrow> error + world" where
  "fs_mkdir_recursive d w =
     (if d = [] \<or> list_ex (\<lambda>p. files w p \<noteq> None) (dir_chain d) then Inl (FsError ''mkdir'')
      else Inr (w\<lparr>dirs := dirs w \<union> set (dir_chain d)\<rparr>))"

definition fs_writeFile :: "string \<Rightarrow> string \<Rightarrow> world \<Rightarrow> error + world" where
  "fs_writeFile p content w =
     (if p = [] \<or> last p = CHR ''/'' \<or> p \<in> dirs w \<or> dirname p \<notin> dirs w
      then Inl (FsError ''writeFile'')
      else Inr (w\<lparr>files := (files w)(p \<mapsto> content), written := written w @ [(p, content)]\<rparr>))"

text \<open>
  When the file system of the model takes the write of \<open>p\<close> after \<open>mkdir\<close> of its
  directory: \<open>p\<close> is a proper file name, it is no directory, and no directory on the way to
  it is a file. A file that exists at \<open>p\<close> is no obstacle.
\<close>

definition fs_accepts :: "string \<Rightarrow> world \<Rightarrow> bool" where
  "fs_accepts p w \<longleftrightarrow>
     p \<noteq> [] \<and> last p \<noteq> CHR ''/'' \<and> p \<notin> dirs w \<and> p \<notin> set (dir_chain (dirname p))
     \<and> list_all (\<lambda>d. files w d = None) (dir_chain (dirname p))"

section \<open>The retry helper\<close>

text \<open>
  \<open>retry(fn, opts)\<close> of the package \<open>async-retry\<close>: it calls \<open>fn\<close>; when \<open>fn\<close> throws or
  returns a promise that rejects, it sleeps and calls \<open>fn\<close> again, up to \<open>retries\<close> more
  times, and then rejects with the error that showed most often; when \<open>fn\<close> returns
  anything else, it resolves with that value. Without \<open>opts\<close> the defaults are 10 retries
  and a first delay of 1000 ms; the delay doubles each time (before randomisation, which
  only lengthens it).
\<close>

record retry_options =
  retries :: nat
  minTimeout :: nat

definition default_retry_options :: retry_options where
  "default_retry_options = \<lparr>retries = 10, minTimeout = 1000\<rparr>"

definition mainError :: "error list \<Rightarrow> error \<Rightarrow> error" where
  "mainError errors e0 =
     fst (foldl (\<lambda>(best, n) i.
                   let e = errors ! i; c = count_list (take (Suc i) errors) e
                   in if n \<le> c then (e, c) else (best, n))
            (e0, 0) [0..<length errors])"

fun retry_attempts ::
  "nat \<Rightarrow> nat \<Rightarrow> retry_options \<Rightarrow> error list \<Rightarrow> (world \<Rightarrow> (error + 'a) \<times> world) \<Rightarrow> world
     \<Rightarrow> (error + 'a) \<times> world" where
  "retry_attempts 0 k opts errors fn w =
     (case fn w of
        (Inr v, w') \<Rightarrow> (Inr v, w')
      | (Inl e, w') \<Rightarrow> (Inl (mainError (errors @ [e]) e), w'))"
| "retry_attempts (Suc n) k opts errors fn w =
     (case fn w of
        (Inr v, w') \<Rightarrow> (Inr v, w')
      | (Inl e, w') \<Rightarrow>
          retry_attempts n (Suc k) opts (errors @ [e]) fn
            (w'\<lparr>sleeps := sleeps w' @ [minTimeout opts * 2 ^ k]\<rparr>))"

definition retry ::
  "(world \<Rightarrow> (error + 'a) \<times> world) \<Rightarrow> retry_options option \<Rightarrow> world \<Rightarrow> (error + 'a) \<times> world" where
  "retry fn opts w =
     (let options = (case opts of None \<Rightarrow> default_retry_options | Some given \<Rightarrow> given)
      in retry_attempts (retries options) 0 options [] fn w)"

text \<open>
  A promise that is created and dropped (the left operand of a comma expression): what the
  call does still happens, and its outcome goes to \<open>floating\<close>, where nothing awaits it. The
  model runs the call to its end at the place where it starts. What Node does with a
  rejection that nothing handles is outside the model.
\<close>

definition dropped :: "(error + unit) \<times> world \<Rightarrow> world" where
  "dropped rw = (snd rw)\<lparr>floating := floating (snd rw) @ [fst rw]\<rparr>"

section \<open>One HTTP attempt: \<open>baseFetchFile\<close>\<close>

definition createEndpointOptions :: "Octokit \<Rightarrow> string \<Rightarrow> RequestParameters \<Rightarrow> EndpointOptions" where
  "createEndpointOptions octokit endpointUrl parameters = request_endpoint octokit endpointUrl parameters"

definition or_empty :: "(string \<times> string) list option \<Rightarrow> (string \<times> string) list" where
  "or_empty h = (case h of None \<Rightarrow> [] | Some hs \<Rightarrow> hs)"

text \<open>
  The part after the response was accepted, the same in both variants: the body is read,
  the directory of the output path is made, the body is written. An output path that is
  not a string makes \<open>dirname\<close> throw.
\<close>

definition persist :: "param \<Rightarrow> string option \<Rightarrow> world \<Rightarrow> (error + unit) \<times> world" where
  "persist outputPath blob w =
     (case blob of
        None \<Rightarrow> (Inl FetchError, w)
      | Some bytes \<Rightarrow>
          (case outputPath of
             PString p \<Rightarrow>
               (case fs_mkdir_recursive (dirname p) w of
                  Inl e \<Rightarrow> (Inl e, w)
                | Inr w1 \<Rightarrow>
                    (case fs_writeFile p bytes w1 of
                       Inl e \<Rightarrow> (Inl e, w1)
                     | Inr w2 \<Rightarrow> (Inr (), w2)))
           | _ \<Rightarrow> (Inl (TypeError ''path''), w)))"

text \<open>
  \<^verbatim>\<open>src/index.ts\<close>, lines 69 to 96. First the request that the attempt sends: the
  headers of the endpoint, then \<open>accept\<close>, then \<open>authorization\<close>.
\<close>

definition fetch_request :: "RequestParameters \<Rightarrow> EndpointOptions \<Rightarrow> FetchRequest" where
  "fetch_request parameters endpointOptions =
     \<lparr>req_url = url endpointOptions,
      req_method = request_method endpointOptions,
      req_headers =
        assign ''authorization'' (''token '' @ ToString (get_prop parameters ''token''))
          (assign ''accept'' ''application/octet-stream'' (or_empty (headers endpointOptions))),
      req_body = body endpointOptions\<rparr>"

definition baseFetchFile ::
  "platform \<Rightarrow> RequestParameters \<Rightarrow> EndpointOptions \<Rightarrow> world \<Rightarrow> (error + unit) \<times> world" where
  "baseFetchFile pf parameters endpointOptions w =
     (let w1 = core_warning (''Request '' @ url endpointOptions @ '' '' @ request_method endpointOptions) w;
          (response, w2) = fetch pf (fetch_request parameters endpointOptions) w1
      in case response of
           Rejected \<Rightarrow> (Inl FetchError, w2)
         | Response ok content \<Rightarrow>
             (let w3 = core_warning ''Response: [object Response]'' w2
              in if \<not> ok then
                   (case content of
                      None \<Rightarrow> (Inl FetchError, w3)
                    | Some text \<Rightarrow> (Inl (Error ''Invalid response''), core_warning text w3))
                 else persist (get_prop parameters ''outputPath'') content w3))"

text \<open>\<^verbatim>\<open>src/unnamed/part_000\<close>, lines 65 to 92.\<close>

definition fetch_request_p0 :: "RequestParameters \<Rightarrow> EndpointOptions \<Rightarrow> FetchRequest" where
  "fetch_request_p0 parameters endpointOptions =
     \<lparr>req_url = url endpointOptions,
      req_method = request_method endpointOptions,
      req_headers =
        assign ''authorization'' (''token '' @ ToString (get_prop parameters ''token''))
          (or_empty (headers endpointOptions)),
      req_body = body endpointOptions\<rparr>"

definition baseFetchFile_p0 ::
  "platform \<Rightarrow> RequestParameters \<Rightarrow> EndpointOptions \<Rightarrow> world \<Rightarrow> (error + unit) \<times> world" where
  "baseFetchFile_p0 pf parameters endpointOptions w =
     (let (response, w1) = fetch pf (fetch_request_p0 parameters endpointOptions) w
      in case response of
           Rejected \<Rightarrow> (Inl FetchError, w1)
         | Response ok content \<Rightarrow>
             (if \<not> ok then
                (case content of
                   None \<Rightarrow> (Inl FetchError, w1)
                 | Some text \<Rightarrow> (Inl (Error ''Invalid response''), core_warning text w1))
              else persist (get_prop parameters ''outputPath'') content w1))"

section \<open>\<open>fetchAssetFile\<close> and \<open>fetchSourceFile\<close>\<close>

text \<open>
  In both variants the function given to \<open>retry\<close> ends in a comma expression: its left
  operand is the call of \<open>baseFetchFile\<close>, whose promise is dropped, and its value is the
  right operand, the object \<open>{retries: 5, minTimeout: 1000}\<close>. \<open>retry\<close> itself is called
  with one argument.
\<close>

definition assets_route :: string where
  "assets_route = ''GET /repos/:owner/:repo/releases/assets/:asset_id''"

text \<open>\<^verbatim>\<open>src/index.ts\<close>, lines 98 to 120.\<close>

definition fetchAssetFile ::
  "platform \<Rightarrow> Octokit \<Rightarrow> RequestParameters \<Rightarrow> world \<Rightarrow> (error + retry_options) \<times> world" where
  "fetchAssetFile pf octokit parameters =
     retry (\<lambda>w. let endpoint = createEndpointOptions octokit assets_route parameters
                in (Inr \<lparr>retries = 5, minTimeout = 1000\<rparr>,
                    dropped (baseFetchFile pf parameters endpoint w)))
       None"

definition fetchSourceFile ::
  "platform \<Rightarrow> RequestParameters \<Rightarrow> string \<Rightarrow> world \<Rightarrow> (error + retry_options) \<times> world" where
  "fetchSourceFile pf parameters url' =
     retry (\<lambda>w. (Inr \<lparr>retries = 5, minTimeout = 1000\<rparr>,
                  dropped (baseFetchFile pf parameters
                             \<lparr>request_method = ''GET'', url = url', headers = None, body = None\<rparr> w)))
       None"

text \<open>\<^verbatim>\<open>src/unnamed/part_000\<close>, lines 94 to 141.\<close>

definition asset_endpoint_p0 :: "Octokit \<Rightarrow> RequestParameters \<Rightarrow> EndpointOptions" where
  "asset_endpoint_p0 octokit parameters =
     (let endpoint = createEndpointOptions octokit assets_route
                       [(''owner'', get_prop parameters ''owner''),
                        (''repo'', get_prop parameters ''repo''),
                        (''asset_id'', get_prop parameters ''id'')]
      in endpoint\<lparr>headers :=
           Some (assign ''accept'' ''application/octet-stream'' (or_empty (headers endpoint)))\<rparr>)"

definition fetchAssetFile_p0 ::
  "platform \<Rightarrow> Octokit \<Rightarrow> RequestParameters \<Rightarrow> world \<Rightarrow> (error + retry_options) \<times> world" where
  "fetchAssetFile_p0 pf octokit parameters =
     retry (\<lambda>w. let endpoint = asset_endpoint_p0 octokit parameters
                in (Inr \<lparr>retries = 5, minTimeout = 1000\<rparr>,
                    dropped (baseFetchFile_p0 pf parameters endpoint w)))
       None"

definition fetchSourceFile_p0 ::
  "platform \<Rightarrow> string \<Rightarrow> string \<Rightarrow> string \<Rightarrow> world \<Rightarrow> (error + retry_options) \<times> world" where
  "fetchSourceFile_p0 pf url' outputPath token =
     retry (\<lambda>w. (Inr \<lparr>retries = 5, minTimeout = 1000\<rparr>,
                  dropped (baseFetchFile_p0 pf
                             [(''token'', PString token), (''outputPath'', PString outputPath)]
                             \<lparr>request_method = ''GET'', url = url',
                              headers = Some [(''accept'', ''application/vnd.github.v3+json'')],
                              body = None\<rparr> w)))
       None"

section \<open>\<open>printOutput\<close> and the asset filters\<close>

definition printOutput :: "GetReleaseResult \<Rightarrow> world \<Rightarrow> world" where
  "printOutput release w =
     core_setOutput ''body'' (nullable (release_body (data release)))
       (core_setOutput ''name'' (nullable (release_name (data release)))
          (core_setOutput ''version'' (OString (tag_name (data release))) w))"

definition filterByFileName :: "string \<Rightarrow> Asset \<Rightarrow> bool" where
  "filterByFileName file asset \<longleftrightarrow> file = asset_name asset"

text \<open>
  \<open>RegExp.prototype.test\<close> of a pattern without flags: the matcher is tried at every start
  index of the input, from 0 to its length, and the test holds when it succeeds at one.
\<close>

definition RegExp_test :: "(string \<Rightarrow> nat \<Rightarrow> nat option) \<Rightarrow> string \<Rightarrow> bool" where
  "RegExp_test matcher s \<longleftrightarrow> list_ex (\<lambda>i. matcher s i \<noteq> None) [0..<Suc (length s)]"

definition filterByRegex :: "platform \<Rightarrow> string \<Rightarrow> Asset \<Rightarrow> error + bool" where
  "filterByRegex pf file asset =
     (case RegExp_compile pf file of
        None \<Rightarrow> Inl (SyntaxError ''Invalid regular expression'')
      | Some matcher \<Rightarrow> Inr (RegExp_test matcher (asset_name asset)))"

text \<open>\<open>Array.prototype.filter\<close> with a predicate that may throw.\<close>

fun Array_filter :: "('a \<Rightarrow> error + bool) \<Rightarrow> 'a list \<Rightarrow> error + 'a list" where
  "Array_filter p [] = Inr []"
| "Array_filter p (x # xs) =
     (case p x of
        Inl e \<Rightarrow> Inl e
      | Inr keep \<Rightarrow>
          (case Array_filter p xs of
             Inl e \<Rightarrow> Inl e
           | Inr ys \<Rightarrow> Inr (if keep then x # ys else ys)))"

section \<open>\<open>main\<close>\<close>

text \<open>
  \<open>core.getInput\<close>: the raw value of the input; a required input that is empty throws;
  the value is trimmed. \<open>core.getBooleanInput\<close> accepts the six spellings of YAML and
  throws a \<open>TypeError\<close> on anything else.
\<close>

definition core_getInput :: "platform \<Rightarrow> string \<Rightarrow> bool \<Rightarrow> error + string" where
  "core_getInput pf name required =
     (let val = inputs pf name
      in if required \<and> val = [] then Inl (Error (''Input required and not supplied: '' @ name))
         else Inr (trim val))"

definition core_getBooleanInput :: "platform \<Rightarrow> string \<Rightarrow> bool \<Rightarrow> error + bool" where
  "core_getBooleanInput pf name required =
     (case core_getInput pf name required of
        Inl e \<Rightarrow> Inl e
      | Inr val \<Rightarrow>
          if val \<in> set [''true'', ''True'', ''TRUE''] then Inr True
          else if val \<in> set [''false'', ''False'', ''FALSE''] then Inr False
          else Inl (TypeError (''Input does not meet YAML 1.2 Core Schema specification: '' @ name)))"

text \<open>An expression that may throw, followed by the rest of the function.\<close>

definition andThen :: "error + 'a \<Rightarrow> ('a \<Rightarrow> error + 'b) \<Rightarrow> error + 'b" where
  "andThen x rest_of = (case x of Inl e \<Rightarrow> Inl e | Inr v \<Rightarrow> rest_of v)"

definition orThrow :: "error + 'a \<Rightarrow> world \<Rightarrow> ('a \<Rightarrow> (error + 'b) \<times> world) \<Rightarrow> (error + 'b) \<times> world" where
  "orThrow x w rest_of = (case x of Inl e \<Rightarrow> (Inl e, w) | Inr v \<Rightarrow> rest_of v)"

text \<open>
  The local constants of \<open>main\<close> that its first statements set, the same in both variants
  (\<^verbatim>\<open>src/index.ts\<close> lines 135 to 149, \<^verbatim>\<open>src/unnamed/part_000\<close> lines 156 to 172).
\<close>

record main_locals =
  repository :: GetRepoResult
  token :: string
  release_version :: string
  file' :: string
  usesRegex :: bool
  onlySourceZip :: bool
  target :: string
  octokit :: Octokit

definition read_inputs :: "platform \<Rightarrow> error + main_locals" where
  "read_inputs pf =
     andThen (core_getInput pf ''repo'' False) (\<lambda>repoInput.
     andThen (getRepo repoInput (github_context pf)) (\<lambda>ownerRepo.
     andThen (core_getInput pf ''token'' False) (\<lambda>tokenInput.
     andThen (core_getInput pf ''version'' False) (\<lambda>versionInput.
     andThen (core_getInput pf ''target'' False) (\<lambda>inputTarget.
     andThen (core_getInput pf ''file'' True) (\<lambda>fileInput.
     andThen (core_getBooleanInput pf ''regex'' False) (\<lambda>regexInput.
     andThen (core_getBooleanInput pf ''only-source-zip'' False) (\<lambda>zipInput.
     andThen (core_getInput pf ''octokitBaseUrl'' False) (\<lambda>baseUrlInput.
     andThen (github_getOctokit pf tokenInput
                (if baseUrlInput = [] then None else Some baseUrlInput)) (\<lambda>client.
       Inr \<lparr>repository = ownerRepo,
            token = tokenInput,
            release_version = (if versionInput = [] then ''latest'' else versionInput),
            file' = fileInput,
            usesRegex = regexInput,
            onlySourceZip = zipInput,
            target = (if inputTarget = [] then fileInput else inputTarget),
            octokit = client\<rparr>))))))))))"

text \<open>A \<open>for ... of\<close> loop whose body awaits a call: the first rejection ends the loop.\<close>

fun for_of :: "('a \<Rightarrow> world \<Rightarrow> (error + 'b) \<times> world) \<Rightarrow> 'a list \<Rightarrow> world \<Rightarrow> (error + unit) \<times> world" where
  "for_of step [] w = (Inr (), w)"
| "for_of step (x # xs) w =
     (case step x w of
        (Inl e, w') \<Rightarrow> (Inl e, w')
      | (Inr v, w') \<Rightarrow> for_of step xs w')"

definition assetFilterFn :: "platform \<Rightarrow> main_locals \<Rightarrow> Asset \<Rightarrow> error + bool" where
  "assetFilterFn pf l =
     (if usesRegex l then filterByRegex pf (file' l)
      else (\<lambda>asset. Inr (filterByFileName (file' l) asset)))"

text \<open>
  The output path of one asset and the parameters that the loop of \<open>main\<close> gives to
  \<open>fetchAssetFile\<close> for it.
\<close>

definition asset_outputPath :: "main_locals \<Rightarrow> Asset \<Rightarrow> string" where
  "asset_outputPath l asset = (if usesRegex l then target l @ asset_name asset else target l)"

definition asset_parameters :: "main_locals \<Rightarrow> Asset \<Rightarrow> RequestParameters" where
  "asset_parameters l asset =
     [(''id'', PNumber (asset_id asset)),
      (''outputPath'', PString (asset_outputPath l asset)),
      (''owner'', PString (owner (repository l))),
      (''repo'', PString (repo (repository l))),
      (''token'', PString (token l))]"

definition boolean_text :: "bool \<Rightarrow> string" where
  "boolean_text b = (if b then ''true'' else ''false'')"

definition or_else :: "string option \<Rightarrow> string \<Rightarrow> string" where
  "or_else v d = (case v of None \<Rightarrow> d | Some s \<Rightarrow> if s = [] then d else s)"

definition zipball_text :: "string option \<Rightarrow> string" where
  "zipball_text v = (case v of None \<Rightarrow> ''null'' | Some s \<Rightarrow> s)"

text \<open>
  \<^verbatim>\<open>src/index.ts\<close>, lines 134 to 187. The two downloaders that \<open>main\<close> calls are
  parameters of \<open>main_with\<close>, so that what \<open>main\<close> does with their outcome can be stated
  for any downloader; \<open>main\<close> itself is \<open>main_with\<close> at \<open>fetchSourceFile\<close> and
  \<open>fetchAssetFile\<close>. The \<open>try\<close> block holds the download and \<open>printOutput\<close>; its
  handler sets an output.
\<close>

definition main_with ::
  "(RequestParameters \<Rightarrow> string \<Rightarrow> world \<Rightarrow> (error + 'a) \<times> world) \<Rightarrow>
   (Octokit \<Rightarrow> RequestParameters \<Rightarrow> world \<Rightarrow> (error + 'b) \<times> world) \<Rightarrow>
   platform \<Rightarrow> world \<Rightarrow> (error + unit) \<times> world" where
  "main_with fetchSource fetchAsset pf w =
     orThrow (read_inputs pf) w (\<lambda>l.
       case getRelease (octokit l)
              \<lparr>owner = owner (repository l), repo = repo (repository l),
               version = release_version l\<rparr> w of
         (Inl e, w1) \<Rightarrow> (Inl e, w1)
       | (Inr release, w1) \<Rightarrow>
           (let w2 = core_warning (''Value onlySourceZip '' @ boolean_text (onlySourceZip l)) w1
            in if onlySourceZip l then
                 (let w3 = core_warning (''Download zipball_url ''
                                          @ zipball_text (zipball_url (data release))) w2
                  in case fetchSource
                            [(''outputPath'', PString (target l)),
                             (''owner'', PString (owner (repository l))),
                             (''repo'', PString (repo (repository l))),
                             (''token'', PString (token l))]
                            (or_else (zipball_url (data release)) []) w3 of
                       (Inr v, w4) \<Rightarrow> (Inr (), printOutput release w4)
                     | (Inl e, w4) \<Rightarrow>
                         (Inr (), core_setOutput ''Error on retrieve source zip'' (OError e) w4))
               else
                 (case Array_filter (assetFilterFn pf l) (assets (data release)) of
                    Inl e \<Rightarrow> (Inl e, w2)
                  | Inr matched \<Rightarrow>
                      if length matched = 0 then (Inl (Error ''Could not find asset id''), w2)
                      else
                        (case for_of (\<lambda>asset. fetchAsset (octokit l) (asset_parameters l asset))
                                matched w2 of
                           (Inl e, w3) \<Rightarrow> (Inl e, w3)
                         | (Inr u, w3) \<Rightarrow> (Inr (), printOutput release w3)))))"

definition main :: "platform \<Rightarrow> world \<Rightarrow> (error + unit) \<times> world" where
  "main pf = main_with (fetchSourceFile pf) (fetchAssetFile pf) pf"

text \<open>\<^verbatim>\<open>src/unnamed/part_000\<close>, lines 155 to 201, in the same way.\<close>

definition main_p0_with ::
  "(string \<Rightarrow> string \<Rightarrow> string \<Rightarrow> world \<Rightarrow> (error + 'a) \<times> world) \<Rightarrow>
   (Octokit \<Rightarrow> RequestParameters \<Rightarrow> world \<Rightarrow> (error + 'b) \<times> world) \<Rightarrow>
   platform \<Rightarrow> world \<Rightarrow> (error + unit) \<times> world" where
  "main_p0_with fetchSource fetchAsset pf w =
     orThrow (read_inputs pf) w (\<lambda>l.
       case getRelease (octokit l)
              \<lparr>owner = owner (repository l), repo = repo (repository l),
               version = release_version l\<rparr> w of
         (Inl e, w1) \<Rightarrow> (Inl e, w1)
       | (Inr release, w1) \<Rightarrow>
           if onlySourceZip l then
             (case fetchSource (or_else (zipball_url (data release)) [])
                     (target l @ file' l @ ''.zip'') (token l) w1 of
                (Inl e, w2) \<Rightarrow> (Inl e, w2)
              | (Inr v, w2) \<Rightarrow> (Inr (), printOutput release w2))
           else
             (case Array_filter (assetFilterFn pf l) (assets (data release)) of
                Inl e \<Rightarrow> (Inl e, w1)
              | Inr matched \<Rightarrow>
                  if length matched = 0 then (Inl (Error ''Could not find asset id''), w1)
                  else
                    (case for_of (\<lambda>asset. fetchAsset (octokit l) (asset_parameters l asset))
                            matched w1 of
                       (Inl e, w2) \<Rightarrow> (Inl e, w2)
                     | (Inr u, w2) \<Rightarrow> (Inr (), printOutput release w2))))"

definition main_p0 :: "platform \<Rightarrow> world \<Rightarrow> (error + unit) \<times> world" where
  "main_p0 pf = main_p0_with (fetchSourceFile_p0 pf) (fetchAssetFile_p0 pf) pf"

text \<open>The requests that the two variants send for an asset.\<close>

definition asset_request :: "main_locals \<Rightarrow> Asset \<Rightarrow> FetchRequest" where
  "asset_request l a =
     fetch_request (asset_parameters l a)
       (createEndpointOptions (octokit l) assets_route (asset_parameters l a))"

definition asset_request_p0 :: "main_locals \<Rightarrow> Asset \<Rightarrow> FetchRequest" where
  "asset_request_p0 l a =
     fetch_request_p0 (asset_parameters l a) (asset_endpoint_p0 (octokit l) (asset_parameters l a))"

section \<open>A small platform to run the module on\<close>

definition example_release :: GetReleaseResult where
  "example_release =
     \<lparr>data = \<lparr>tag_name = ''v1.0.0'', release_name = Some ''First'', release_body = None,
              zipball_url = Some ''https://host/zipball/v1.0.0'',
              assets = [\<lparr>asset_id = 1, asset_name = ''app.zip''\<rparr>,
                        \<lparr>asset_id = 2, asset_name = ''notes.txt''\<rparr>,
                        \<lparr>asset_id = 3, asset_name = ''app.zip.sig''\<rparr>]\<rparr>\<rparr>"

text \<open>A client that knows one release and builds asset URLs from the asset number.\<close>

definition example_octokit :: Octokit where
  "example_octokit =
     \<lparr>rest = (\<lambda>c. Inr example_release),
      request_endpoint = (\<lambda>route ps.
        \<lparr>request_method = ''GET'',
         url = ''https://host/assets/'' @ ToString (get_prop ps ''asset_id''),
         headers = None, body = None\<rparr>)\<rparr>"

text \<open>A compiler for patterns without special characters: the pattern matches itself.\<close>

definition literal_matcher :: "string \<Rightarrow> string \<Rightarrow> nat \<Rightarrow> nat option" where
  "literal_matcher pat s i =
     (if take (length pat) (drop i s) = pat then Some (i + length pat) else None)"

definition example_inputs :: "string \<Rightarrow> string \<Rightarrow> string \<Rightarrow> string \<Rightarrow> string \<Rightarrow> string" where
  "example_inputs fileIn targetIn regexIn zipIn name =
     (if name = ''repo'' then ''octo/tool''
      else if name = ''token'' then ''secret''
      else if name = ''file'' then fileIn
      else if name = ''target'' then targetIn
      else if name = ''regex'' then regexIn
      else if name = ''only-source-zip'' then zipIn
      else [])"

definition example_platform ::
  "(string \<Rightarrow> string) \<Rightarrow> (nat \<Rightarrow> FetchRequest \<Rightarrow> fetch_outcome) \<Rightarrow> platform" where
  "example_platform ins server =
     \<lparr>inputs = ins,
      github_context = \<lparr>context_repo = \<lparr>owner = ''me'', repo = ''here''\<rparr>\<rparr>,
      github_getOctokit = (\<lambda>tok base. Inr example_octokit),
      http = server,
      RegExp_compile = (\<lambda>pat. Some (literal_matcher pat))\<rparr>"

definition server_ok :: "nat \<Rightarrow> FetchRequest \<Rightarrow> fetch_outcome" where
  "server_ok n req = Response True (Some ''DATA'')"

definition server_down :: "nat \<Rightarrow> FetchRequest \<Rightarrow> fetch_outcome" where
  "server_down n req = Response False (Some ''Server Error'')"

text \<open>A server that answers its first request with an error and every later one well.\<close>

definition server_recovers :: "nat \<Rightarrow> FetchRequest \<Rightarrow> fetch_outcome" where
  "server_recovers n req =
     (if n = 0 then Response False (Some ''Server Error'') else Response True (Some ''DATA''))"

definition empty_world :: world where
  "empty_world =
     \<lparr>rest_calls = [], fetched = [], warnings = [], outputs = [], dirs = {''.''},
      files = Map.empty, written = [], floating = [], sleeps = []\<rparr>"

definition example_locals :: "string \<Rightarrow> string \<Rightarrow> bool \<Rightarrow> bool \<Rightarrow> main_locals" where
  "example_locals fileIn targetIn regexIn zipIn =
     \<lparr>repository = \<lparr>owner = ''octo'', repo = ''tool''\<rparr>,
      token = ''secret'',
      release_version = ''latest'',
      file' = fileIn,
      usesRegex = regexIn,
      onlySourceZip = zipIn,
      target = (if targetIn = [] then fileIn else targetIn),
      octokit = example_octokit\<rparr>"

section \<open>Properties of \<open>getRepo\<close>\<close>

lemma split_no_sep: "sep \<notin> set s \<Longrightarrow> split sep s = [s]"
  by (induction s) auto

lemma split_append_sep:
  "sep \<notin> set a \<Longrightarrow> split sep (a @ sep # b) = a # split sep b"
  by (induction a) auto

lemma split_two:
  assumes "sep \<notin> set a" and "sep \<notin> set b"
  shows "split sep (a @ sep # b) = [a, b]"
  using assms by (simp add: split_append_sep split_no_sep)

text \<open>
  C3. For every string \<open>owner/name\<close> whose two halves hold no \<open>/\<close>, \<open>getRepo\<close> returns
  exactly that pair; for the empty string it returns the pair of the ambient context;
  for every non-empty string without \<open>/\<close> it fails with the error \<open>Malformed repo\<close>.
\<close>

theorem getRepo_resolves:
  "(CHR ''/'' \<notin> set ownr \<and> CHR ''/'' \<notin> set name \<longrightarrow>
      getRepo (ownr @ ''/'' @ name) ctx = Inr \<lparr>owner = ownr, repo = name\<rparr>)
   \<and> getRepo [] ctx = Inr (context_repo ctx)
   \<and> (s \<noteq> [] \<and> CHR ''/'' \<notin> set s \<longrightarrow> getRepo s ctx = Inl (Error ''Malformed repo''))"
proof (intro conjI impI)
  assume h: "CHR ''/'' \<notin> set ownr \<and> CHR ''/'' \<notin> set name"
  then have "split (CHR ''/'') (ownr @ CHR ''/'' # name) = [ownr, name]"
    by (simp add: split_two)
  then show "getRepo (ownr @ ''/'' @ name) ctx = Inr \<lparr>owner = ownr, repo = name\<rparr>"
    by (simp add: getRepo_def)
next
  show "getRepo [] ctx = Inr (context_repo ctx)"
    by (simp add: getRepo_def)
next
  assume h: "s \<noteq> [] \<and> CHR ''/'' \<notin> set s"
  then have "split (CHR ''/'') s = [s]"
    by (simp add: split_no_sep)
  with h show "getRepo s ctx = Inl (Error ''Malformed repo'')"
    by (simp add: getRepo_def)
qed

theorem getRepo_resolves_witness:
  "getRepo ''octocat/hello'' \<lparr>context_repo = \<lparr>owner = ''me'', repo = ''here''\<rparr>\<rparr>
     = Inr \<lparr>owner = ''octocat'', repo = ''hello''\<rparr>
   \<and> getRepo [] \<lparr>context_repo = \<lparr>owner = ''me'', repo = ''here''\<rparr>\<rparr>
     = Inr \<lparr>owner = ''me'', repo = ''here''\<rparr>
   \<and> getRepo ''octocat'' \<lparr>context_repo = \<lparr>owner = ''me'', repo = ''here''\<rparr>\<rparr>
     = Inl (Error ''Malformed repo'')"
  using getRepo_resolves [of "''octocat''" "''hello''"
      "\<lparr>context_repo = \<lparr>owner = ''me'', repo = ''here''\<rparr>\<rparr>" "''octocat''"]
  by simp

section \<open>Properties of \<open>getRelease\<close>\<close>



lemma Number_tags: "Number ''tags/'' = NaN"
  by (simp add: Number_def trim_def isStrWhiteSpaceChar_def NonDecimalIntegerLiteral_def
      StrUnsignedDecimalLiteral_def isDigit_def digit_value_def)



text \<open>
  C10. For the descriptor \<open>tags/\<close> the pattern matches with an empty group, the guard
  rejects it, and \<open>getRelease\<close> asks for the release whose number is
  \<open>Math.trunc(Number('tags/'))\<close>, that is \<open>NaN\<close>.
\<close>

theorem getRelease_empty_tag:
  "tagsMatch ''tags/'' = Some []
   \<and> Math_trunc (Number ''tags/'') = NaN
   \<and> getRelease client \<lparr>owner = ow, repo = rp, version = ''tags/''\<rparr> w
       = octokit_rest client (repos_getRelease ow rp NaN) w"
  by (simp add: getRelease_def tagsMatch_def Number_tags Math_trunc_def)

section \<open>Properties of the asset filters\<close>

lemma Array_filter_total:
  "Array_filter (\<lambda>x. Inr (P x)) xs = Inr (filter P xs)"
  by (induction xs) auto

lemma RegExp_test_iff:
  "RegExp_test m s \<longleftrightarrow> (\<exists>i e. i \<le> length s \<and> m s i = Some e)"
proof -
  have "set [0..<Suc (length s)] = {i. i \<le> length s}"
    by (auto simp del: upt_Suc)
  then show ?thesis
    unfolding RegExp_test_def list_ex_iff by auto
qed

lemma assetFilterFn_exact:
  "\<not> usesRegex l \<Longrightarrow> assetFilterFn pf l = (\<lambda>a. Inr (asset_name a = file' l))"
  by (auto simp: assetFilterFn_def filterByFileName_def)

lemma assetFilterFn_regex:
  "usesRegex l \<Longrightarrow> RegExp_compile pf (file' l) = Some m \<Longrightarrow>
     assetFilterFn pf l = (\<lambda>a. Inr (RegExp_test m (asset_name a)))"
  by (auto simp: assetFilterFn_def filterByRegex_def)

lemma Array_filter_exact:
  assumes "\<not> usesRegex l"
  shows "Array_filter (assetFilterFn pf l) as = Inr (filter (\<lambda>a. asset_name a = file' l) as)"
  by (simp add: assetFilterFn_exact [OF assms] Array_filter_total)

lemma Array_filter_regex:
  assumes "usesRegex l" and "RegExp_compile pf (file' l) = Some m"
  shows "Array_filter (assetFilterFn pf l) as
           = Inr (filter (\<lambda>a. \<exists>i e. i \<le> length (asset_name a) \<and> m (asset_name a) i = Some e) as)"
  by (simp add: assetFilterFn_regex [OF assms] Array_filter_total RegExp_test_iff)

text \<open>
  C5. In exact mode the matcher keeps exactly the assets whose name equals the query; in
  pattern mode, with a query that compiles, exactly the assets in whose name the pattern
  matches from some start index up to some end index; the result is a subsequence of the
  asset list, in its order; and when no asset qualifies the result is the empty list, a
  value and not an error.
\<close>

theorem asset_filter_selects:
  "(\<not> usesRegex l \<longrightarrow>
      Array_filter (assetFilterFn pf l) as = Inr (filter (\<lambda>a. asset_name a = file' l) as))
   \<and> (usesRegex l \<and> RegExp_compile pf (file' l) = Some m \<longrightarrow>
      Array_filter (assetFilterFn pf l) as
        = Inr (filter (\<lambda>a. \<exists>i e. i \<le> length (asset_name a) \<and> m (asset_name a) i = Some e) as))
   \<and> (Array_filter (assetFilterFn pf l) as = Inr matched \<longrightarrow>
      subseq matched as
      \<and> (matched = [] \<longleftrightarrow> (\<forall>a \<in> set as. assetFilterFn pf l a = Inr False)))"
proof (intro conjI impI)
  assume "\<not> usesRegex l"
  then show "Array_filter (assetFilterFn pf l) as = Inr (filter (\<lambda>a. asset_name a = file' l) as)"
    by (rule Array_filter_exact)
next
  assume "usesRegex l \<and> RegExp_compile pf (file' l) = Some m"
  then show "Array_filter (assetFilterFn pf l) as
        = Inr (filter (\<lambda>a. \<exists>i e. i \<le> length (asset_name a) \<and> m (asset_name a) i = Some e) as)"
    by (simp add: Array_filter_regex)
next
  assume h: "Array_filter (assetFilterFn pf l) as = Inr matched"
  have sel: "matched = filter (\<lambda>a. assetFilterFn pf l a = Inr True) as
             \<and> (\<forall>a \<in> set as. \<exists>b. assetFilterFn pf l a = Inr b)"
    using h
  proof (induction as arbitrary: matched)
    case Nil
    then show ?case by simp
  next
    case (Cons a as)
    then show ?case
      by (auto split: sum.splits if_splits)
  qed
  then show "subseq matched as" by simp
  from sel show "matched = [] \<longleftrightarrow> (\<forall>a \<in> set as. assetFilterFn pf l a = Inr False)"
    by (fastforce simp: filter_empty_conv)
qed

theorem asset_filter_selects_witness:
  "Array_filter (assetFilterFn (example_platform (example_inputs ''app.zip'' [] ''false'' ''false'') server_ok) (example_locals ''app.zip'' [] False False))
       (assets (data example_release))
     = Inr [\<lparr>asset_id = 1, asset_name = ''app.zip''\<rparr>]
   \<and> Array_filter (assetFilterFn (example_platform (example_inputs ''app.zip'' [] ''false'' ''false'') server_ok) (example_locals ''app.zip'' [] True False))
       (assets (data example_release))
     = Inr [\<lparr>asset_id = 1, asset_name = ''app.zip''\<rparr>, \<lparr>asset_id = 3, asset_name = ''app.zip.sig''\<rparr>]
   \<and> filter (\<lambda>a. \<exists>i e. i \<le> length (asset_name a)
                        \<and> literal_matcher ''app.zip'' (asset_name a) i = Some e)
        (assets (data example_release))
     = [\<lparr>asset_id = 1, asset_name = ''app.zip''\<rparr>, \<lparr>asset_id = 3, asset_name = ''app.zip.sig''\<rparr>]
   \<and> Array_filter (assetFilterFn (example_platform (example_inputs ''app.zip'' [] ''false'' ''false'') server_ok) (example_locals ''App.zip'' [] False False))
       (assets (data example_release))
     = Inr []"
proof -
  let ?P = "example_platform (example_inputs ''app.zip'' [] ''false'' ''false'') server_ok"
  let ?A = "assets (data example_release)"
  let ?a1 = "\<lparr>asset_id = 1, asset_name = ''app.zip''\<rparr>"
  let ?a3 = "\<lparr>asset_id = 3, asset_name = ''app.zip.sig''\<rparr>"
  let ?m = "literal_matcher ''app.zip''"
  have exact: "Array_filter (assetFilterFn ?P (example_locals ''app.zip'' [] False False)) ?A = Inr [?a1]"
    using asset_filter_selects [of "example_locals ''app.zip'' [] False False" ?P ?A ?m "[?a1]"]
    by (simp add: example_locals_def example_release_def)
  have other: "Array_filter (assetFilterFn ?P (example_locals ''App.zip'' [] False False)) ?A = Inr []"
    using asset_filter_selects [of "example_locals ''App.zip'' [] False False" ?P ?A ?m "[]"]
    by (simp add: example_locals_def example_release_def)
  have run: "Array_filter (assetFilterFn ?P (example_locals ''app.zip'' [] True False)) ?A = Inr [?a1, ?a3]"
    by (simp add: assetFilterFn_def filterByRegex_def example_platform_def example_locals_def
        example_release_def RegExp_test_def literal_matcher_def)
  have pattern: "filter (\<lambda>a. \<exists>i e. i \<le> length (asset_name a) \<and> ?m (asset_name a) i = Some e) ?A
                   = [?a1, ?a3]"
    using asset_filter_selects [of "example_locals ''app.zip'' [] True False" ?P ?A ?m "[?a1, ?a3]"] run
    by (simp add: example_locals_def example_platform_def)
  from exact run pattern other show ?thesis by simp
qed

section \<open>Properties of one HTTP attempt\<close>

lemma dirname_case_not_empty:
  "(case ab of [] \<Rightarrow> if r then ''/'' else ''.''
             | s # k \<Rightarrow> if r \<and> k = [] then ''//'' else c # rev k) \<noteq> []"
  by (cases ab) auto

lemma dirname_Cons:
  "dirname (c # cs) =
     (case dropWhile (\<lambda>x. x \<noteq> CHR ''/'') (dropWhile (\<lambda>x. x = CHR ''/'') (rev cs)) of
        [] \<Rightarrow> if c = CHR ''/'' then ''/'' else ''.''
      | s # k \<Rightarrow> if c = CHR ''/'' \<and> k = [] then ''//'' else c # rev k)"
  unfolding dirname_def Let_def list.case ..

lemma dirname_not_empty: "dirname p \<noteq> []"
proof (cases p)
  case Nil
  show ?thesis unfolding Nil dirname_def by simp
next
  case (Cons c cs)
  show ?thesis
    unfolding Cons dirname_Cons by (rule dirname_case_not_empty)
qed

lemma dir_chain_upto_head: "d \<in> set (dir_chain_upto n d)"
  by (cases n) auto

lemma dir_chain_head: "d \<in> set (dir_chain d)"
  by (simp add: dir_chain_def dir_chain_upto_head)

lemma mkdir_dirname:
  "fs_mkdir_recursive (dirname p) w =
     (if list_all (\<lambda>d. files w d = None) (dir_chain (dirname p))
      then Inr (w\<lparr>dirs := dirs w \<union> set (dir_chain (dirname p))\<rparr>)
      else Inl (FsError ''mkdir''))"
  by (simp add: fs_mkdir_recursive_def dirname_not_empty list_ex_iff list_all_iff)

lemma writeFile_after_mkdir:
  "fs_writeFile p bytes (w\<lparr>dirs := dirs w \<union> set (dir_chain (dirname p))\<rparr>) =
     (if p \<noteq> [] \<and> last p \<noteq> CHR ''/'' \<and> p \<notin> dirs w \<and> p \<notin> set (dir_chain (dirname p))
      then Inr (w\<lparr>dirs := dirs w \<union> set (dir_chain (dirname p)),
                  files := (files w)(p \<mapsto> bytes),
                  written := written w @ [(p, bytes)]\<rparr>)
      else Inl (FsError ''writeFile''))"
  using dir_chain_head [of "dirname p"]
  by (simp add: fs_writeFile_def)

lemma persist_result:
  "persist (PString p) (Some bytes) w =
     (if fs_accepts p w
      then (Inr (), w\<lparr>dirs := dirs w \<union> set (dir_chain (dirname p)),
                       files := (files w)(p \<mapsto> bytes),
                       written := written w @ [(p, bytes)]\<rparr>)
      else if list_all (\<lambda>d. files w d = None) (dir_chain (dirname p))
      then (Inl (FsError ''writeFile''), w\<lparr>dirs := dirs w \<union> set (dir_chain (dirname p))\<rparr>)
      else (Inl (FsError ''mkdir''), w))"
proof (cases "list_all (\<lambda>d. files w d = None) (dir_chain (dirname p))")
  case False
  then show ?thesis
    by (simp add: persist_def mkdir_dirname fs_accepts_def)
next
  case True
  then show ?thesis
    by (simp add: persist_def mkdir_dirname writeFile_after_mkdir fs_accepts_def)
qed

lemma persist_no_bytes: "persist op None w = (Inl FetchError, w)"
  by (simp add: persist_def)


lemma baseFetchFile_unfold:
  "baseFetchFile pf ps ep w =
     (let w2 = w\<lparr>fetched := fetched w @ [fetch_request ps ep],
                   warnings := warnings w @ [''Request '' @ url ep @ '' '' @ request_method ep]\<rparr>;
          w3 = w2\<lparr>warnings := warnings w2 @ [''Response: [object Response]'']\<rparr>
      in case http pf (length (fetched w)) (fetch_request ps ep) of
           Rejected \<Rightarrow> (Inl FetchError, w2)
         | Response ok content \<Rightarrow>
             if ok then persist (get_prop ps ''outputPath'') content w3
             else (case content of
                     None \<Rightarrow> (Inl FetchError, w3)
                   | Some text \<Rightarrow> (Inl (Error ''Invalid response''),
                                   w3\<lparr>warnings := warnings w3 @ [text]\<rparr>)))"
  by (simp add: baseFetchFile_def fetch_def core_warning_def Let_def
      split: fetch_outcome.split option.split)

lemma baseFetchFile_p0_unfold:
  "baseFetchFile_p0 pf ps ep w =
     (let w1 = w\<lparr>fetched := fetched w @ [fetch_request_p0 ps ep]\<rparr>
      in case http pf (length (fetched w)) (fetch_request_p0 ps ep) of
           Rejected \<Rightarrow> (Inl FetchError, w1)
         | Response ok content \<Rightarrow>
             if ok then persist (get_prop ps ''outputPath'') content w1
             else (case content of
                     None \<Rightarrow> (Inl FetchError, w1)
                   | Some text \<Rightarrow> (Inl (Error ''Invalid response''),
                                   w1\<lparr>warnings := warnings w1 @ [text]\<rparr>)))"
  by (simp add: baseFetchFile_p0_def fetch_def core_warning_def Let_def
      split: fetch_outcome.split option.split)








section \<open>Properties of the downloads\<close>

lemma retry_resolves:
  "fn w = (Inr v, w') \<Longrightarrow> retry fn opts w = (Inr v, w')"
  by (cases "retries (case opts of None \<Rightarrow> default_retry_options | Some given \<Rightarrow> given)")
     (simp_all add: retry_def)

lemma fetchAssetFile_once:
  "fetchAssetFile pf client ps w =
     (Inr \<lparr>retries = 5, minTimeout = 1000\<rparr>,
      dropped (baseFetchFile pf ps (createEndpointOptions client assets_route ps) w))"
  unfolding fetchAssetFile_def by (rule retry_resolves) simp

lemma fetchSourceFile_once:
  "fetchSourceFile pf ps u w =
     (Inr \<lparr>retries = 5, minTimeout = 1000\<rparr>,
      dropped (baseFetchFile pf ps
                 \<lparr>request_method = ''GET'', url = u, headers = None, body = None\<rparr> w))"
  unfolding fetchSourceFile_def by (rule retry_resolves) simp

lemma fetchAssetFile_p0_once:
  "fetchAssetFile_p0 pf client ps w =
     (Inr \<lparr>retries = 5, minTimeout = 1000\<rparr>,
      dropped (baseFetchFile_p0 pf ps (asset_endpoint_p0 client ps) w))"
  unfolding fetchAssetFile_p0_def by (rule retry_resolves) simp

lemma fetchSourceFile_p0_once:
  "fetchSourceFile_p0 pf u path tok w =
     (Inr \<lparr>retries = 5, minTimeout = 1000\<rparr>,
      dropped (baseFetchFile_p0 pf [(''token'', PString tok), (''outputPath'', PString path)]
                 \<lparr>request_method = ''GET'', url = u,
                  headers = Some [(''accept'', ''application/vnd.github.v3+json'')],
                  body = None\<rparr> w))"
  unfolding fetchSourceFile_p0_def by (rule retry_resolves) simp

text \<open>What \<open>persist\<close> and an attempt leave alone, and what they add to the list of writes.\<close>

lemma persist_keeps:
  "fetched (snd (persist op blob w)) = fetched w
   \<and> floating (snd (persist op blob w)) = floating w
   \<and> rest_calls (snd (persist op blob w)) = rest_calls w
   \<and> outputs (snd (persist op blob w)) = outputs w
   \<and> warnings (snd (persist op blob w)) = warnings w
   \<and> sleeps (snd (persist op blob w)) = sleeps w"
proof (cases blob)
  case None
  then show ?thesis by (simp add: persist_no_bytes)
next
  case (Some bytes)
  then show ?thesis
    by (cases op) (simp_all add: persist_result, simp_all add: persist_def)
qed

lemma persist_paths:
  "map fst (written (snd (persist (PString p) blob w)))
     = map fst (written w) @ (if fst (persist (PString p) blob w) = Inr () then [p] else [])"
proof (cases blob)
  case None
  then show ?thesis by (simp add: persist_no_bytes)
next
  case (Some bytes)
  then show ?thesis by (simp add: persist_result)
qed

lemma baseFetchFile_keeps:
  "fetched (snd (baseFetchFile pf ps ep w)) = fetched w @ [fetch_request ps ep]
   \<and> floating (snd (baseFetchFile pf ps ep w)) = floating w
   \<and> rest_calls (snd (baseFetchFile pf ps ep w)) = rest_calls w
   \<and> outputs (snd (baseFetchFile pf ps ep w)) = outputs w
   \<and> sleeps (snd (baseFetchFile pf ps ep w)) = sleeps w"
  by (simp add: baseFetchFile_unfold Let_def persist_keeps
      split: fetch_outcome.split option.split)

lemma baseFetchFile_p0_keeps:
  "fetched (snd (baseFetchFile_p0 pf ps ep w)) = fetched w @ [fetch_request_p0 ps ep]
   \<and> floating (snd (baseFetchFile_p0 pf ps ep w)) = floating w
   \<and> rest_calls (snd (baseFetchFile_p0 pf ps ep w)) = rest_calls w
   \<and> outputs (snd (baseFetchFile_p0 pf ps ep w)) = outputs w
   \<and> sleeps (snd (baseFetchFile_p0 pf ps ep w)) = sleeps w"
  by (simp add: baseFetchFile_p0_unfold Let_def persist_keeps
      split: fetch_outcome.split option.split)

lemma baseFetchFile_paths:
  "get_prop ps ''outputPath'' = PString p \<Longrightarrow>
   map fst (written (snd (baseFetchFile pf ps ep w)))
     = map fst (written w) @ (if fst (baseFetchFile pf ps ep w) = Inr () then [p] else [])"
  by (simp add: baseFetchFile_unfold Let_def persist_paths
      split: fetch_outcome.split option.split)

lemma baseFetchFile_p0_paths:
  "get_prop ps ''outputPath'' = PString p \<Longrightarrow>
   map fst (written (snd (baseFetchFile_p0 pf ps ep w)))
     = map fst (written w) @ (if fst (baseFetchFile_p0 pf ps ep w) = Inr () then [p] else [])"
  by (simp add: baseFetchFile_p0_unfold Let_def persist_paths
      split: fetch_outcome.split option.split)

text \<open>
  The loop of \<open>main\<close> over the matched assets, for any attempt \<open>att\<close> that sends the
  request \<open>rq a\<close> and writes to \<open>path a\<close>: no step fails, each asset gets one request and
  one dropped promise, in the order of the list, and the paths written are those of the
  assets whose attempt ended well.
\<close>

lemma for_of_dropped:
  fixes att :: "'a \<Rightarrow> world \<Rightarrow> (error + unit) \<times> world"
  assumes keeps: "\<And>a w. fetched (snd (att a w)) = fetched w @ [rq a]
                       \<and> floating (snd (att a w)) = floating w
                       \<and> rest_calls (snd (att a w)) = rest_calls w
                       \<and> outputs (snd (att a w)) = outputs w
                       \<and> sleeps (snd (att a w)) = sleeps w"
    and paths: "\<And>a w. map fst (written (snd (att a w)))
                  = map fst (written w) @ (if fst (att a w) = Inr () then [path a] else [])"
  shows "\<exists>w' rs. for_of (\<lambda>a w. (Inr v, dropped (att a w))) as w = (Inr (), w')
           \<and> fetched w' = fetched w @ map rq as
           \<and> floating w' = floating w @ rs \<and> length rs = length as
           \<and> map fst (written w')
               = map fst (written w) @ map (\<lambda>ar. path (fst ar)) (filter (\<lambda>ar. snd ar = Inr ()) (zip as rs))
           \<and> rest_calls w' = rest_calls w \<and> outputs w' = outputs w \<and> sleeps w' = sleeps w"
proof (induction as arbitrary: w)
  case Nil
  show ?case by simp
next
  case (Cons a as)
  let ?w1 = "dropped (att a w)"
  from Cons.IH [of ?w1] obtain w' rs where
    run: "for_of (\<lambda>a w. (Inr v, dropped (att a w))) as ?w1 = (Inr (), w')"
    and f: "fetched w' = fetched ?w1 @ map rq as"
    and fl: "floating w' = floating ?w1 @ rs" and len: "length rs = length as"
    and wr: "map fst (written w')
               = map fst (written ?w1) @ map (\<lambda>ar. path (fst ar)) (filter (\<lambda>ar. snd ar = Inr ()) (zip as rs))"
    and rest: "rest_calls w' = rest_calls ?w1" "outputs w' = outputs ?w1" "sleeps w' = sleeps ?w1"
    by blast
  have d: "fetched ?w1 = fetched w @ [rq a]" "floating ?w1 = floating w @ [fst (att a w)]"
    "rest_calls ?w1 = rest_calls w" "outputs ?w1 = outputs w" "sleeps ?w1 = sleeps w"
    "map fst (written ?w1) = map fst (written w) @ (if fst (att a w) = Inr () then [path a] else [])"
    using keeps [of a w] paths [of a w] by (simp_all add: dropped_def)
  show ?case
  proof (intro exI [of _ w'] exI [of _ "fst (att a w) # rs"] conjI)
    show "for_of (\<lambda>a w. (Inr v, dropped (att a w))) (a # as) w = (Inr (), w')"
      using run by simp
    show "fetched w' = fetched w @ map rq (a # as)"
      using f d by simp
    show "floating w' = floating w @ fst (att a w) # rs"
      using fl d by simp
    show "length (fst (att a w) # rs) = length (a # as)"
      using len by simp
    show "map fst (written w')
            = map fst (written w)
              @ map (\<lambda>ar. path (fst ar))
                  (filter (\<lambda>ar. snd ar = Inr ()) (zip (a # as) (fst (att a w) # rs)))"
      using wr d by simp
    show "rest_calls w' = rest_calls w" "outputs w' = outputs w" "sleeps w' = sleeps w"
      using rest d by simp_all
  qed
qed

section \<open>Properties of \<open>main\<close>\<close>

lemma andThen_Inr:
  "andThen x f = Inr y \<Longrightarrow> \<exists>v. x = Inr v \<and> f v = Inr y"
  by (cases x) (simp_all add: andThen_def)

lemma core_getInput_optional: "core_getInput pf name False = Inr (trim (inputs pf name))"
  by (simp add: core_getInput_def)

lemma read_inputs_target:
  assumes "read_inputs pf = Inr l"
  shows "target l = (if trim (inputs pf ''target'') = [] then file' l
                     else trim (inputs pf ''target''))"
    and "file' l = trim (inputs pf ''file'')"
proof -
  from assms obtain ownerRepo where
    "andThen (core_getInput pf ''file'' True) (\<lambda>fileInput.
     andThen (core_getBooleanInput pf ''regex'' False) (\<lambda>regexInput.
     andThen (core_getBooleanInput pf ''only-source-zip'' False) (\<lambda>zipInput.
     andThen (core_getInput pf ''octokitBaseUrl'' False) (\<lambda>baseUrlInput.
     andThen (github_getOctokit pf (trim (inputs pf ''token''))
                (if baseUrlInput = [] then None else Some baseUrlInput)) (\<lambda>client.
       Inr \<lparr>repository = ownerRepo,
            token = trim (inputs pf ''token''),
            release_version = (if trim (inputs pf ''version'') = [] then ''latest''
                               else trim (inputs pf ''version'')),
            file' = fileInput,
            usesRegex = regexInput,
            onlySourceZip = zipInput,
            target = (if trim (inputs pf ''target'') = [] then fileInput
                      else trim (inputs pf ''target'')),
            octokit = client\<rparr>))))) = Inr l"
    unfolding read_inputs_def core_getInput_optional
    by (auto simp: andThen_def split: sum.splits)
  then obtain fileInput regexInput zipInput client where
    f: "core_getInput pf ''file'' True = Inr fileInput"
    and l: "l = \<lparr>repository = ownerRepo,
            token = trim (inputs pf ''token''),
            release_version = (if trim (inputs pf ''version'') = [] then ''latest''
                               else trim (inputs pf ''version'')),
            file' = fileInput,
            usesRegex = regexInput,
            onlySourceZip = zipInput,
            target = (if trim (inputs pf ''target'') = [] then fileInput
                      else trim (inputs pf ''target'')),
            octokit = client\<rparr>"
    unfolding core_getInput_optional
    by (auto simp: andThen_def split: sum.splits)
  from f have "fileInput = trim (inputs pf ''file'')"
    by (simp add: core_getInput_def Let_def split: if_splits)
  with l show "target l = (if trim (inputs pf ''target'') = [] then file' l
                     else trim (inputs pf ''target''))"
    and "file' l = trim (inputs pf ''file'')"
    by simp_all
qed

lemma getRelease_keeps:
  "getRelease client opts w = (r, w1) \<Longrightarrow>
     fetched w1 = fetched w \<and> written w1 = written w \<and> floating w1 = floating w
     \<and> outputs w1 = outputs w \<and> files w1 = files w \<and> dirs w1 = dirs w
     \<and> sleeps w1 = sleeps w \<and> warnings w1 = warnings w"
  by (auto simp: getRelease_def octokit_rest_def split: if_splits option.splits list.splits)

lemma printOutput_keeps:
  "fetched (printOutput rel w) = fetched w \<and> written (printOutput rel w) = written w
   \<and> floating (printOutput rel w) = floating w \<and> files (printOutput rel w) = files w
   \<and> dirs (printOutput rel w) = dirs w \<and> sleeps (printOutput rel w) = sleeps w
   \<and> outputs (printOutput rel w)
       = outputs w @ [(''version'', tag_name (data rel)),
                      (''name'', toCommandValue (nullable (release_name (data rel)))),
                      (''body'', toCommandValue (nullable (release_body (data rel))))]"
  by (simp add: printOutput_def core_setOutput_def toCommandValue_def)

lemma asset_path_parameter:
  "get_prop (asset_parameters l a) ''outputPath'' = PString (asset_outputPath l a)"
  by (simp add: asset_parameters_def get_prop_def)

lemma asset_loop:
  "\<exists>w' rs. for_of (\<lambda>a. fetchAssetFile pf (octokit l) (asset_parameters l a)) as w = (Inr (), w')
     \<and> fetched w' = fetched w @ map (asset_request l) as
     \<and> floating w' = floating w @ rs \<and> length rs = length as
     \<and> map fst (written w')
         = map fst (written w)
           @ map (\<lambda>ar. asset_outputPath l (fst ar)) (filter (\<lambda>ar. snd ar = Inr ()) (zip as rs))
     \<and> rest_calls w' = rest_calls w \<and> outputs w' = outputs w \<and> sleeps w' = sleeps w"
proof -
  let ?att = "\<lambda>a. baseFetchFile pf (asset_parameters l a)
                     (createEndpointOptions (octokit l) assets_route (asset_parameters l a))"
  have "(\<lambda>a. fetchAssetFile pf (octokit l) (asset_parameters l a))
          = (\<lambda>a w. (Inr \<lparr>retries = 5, minTimeout = 1000\<rparr>, dropped (?att a w)))"
    by (intro ext) (simp add: fetchAssetFile_once)
  then show ?thesis
    using for_of_dropped [of ?att "asset_request l" "asset_outputPath l"
        "\<lparr>retries = 5, minTimeout = 1000\<rparr>" as w]
    by (simp add: baseFetchFile_keeps baseFetchFile_paths asset_path_parameter asset_request_def)
qed

lemma asset_loop_p0:
  "\<exists>w' rs. for_of (\<lambda>a. fetchAssetFile_p0 pf (octokit l) (asset_parameters l a)) as w = (Inr (), w')
     \<and> fetched w' = fetched w @ map (asset_request_p0 l) as
     \<and> floating w' = floating w @ rs \<and> length rs = length as
     \<and> map fst (written w')
         = map fst (written w)
           @ map (\<lambda>ar. asset_outputPath l (fst ar)) (filter (\<lambda>ar. snd ar = Inr ()) (zip as rs))
     \<and> rest_calls w' = rest_calls w \<and> outputs w' = outputs w \<and> sleeps w' = sleeps w"
proof -
  let ?att = "\<lambda>a. baseFetchFile_p0 pf (asset_parameters l a)
                     (asset_endpoint_p0 (octokit l) (asset_parameters l a))"
  have "(\<lambda>a. fetchAssetFile_p0 pf (octokit l) (asset_parameters l a))
          = (\<lambda>a w. (Inr \<lparr>retries = 5, minTimeout = 1000\<rparr>, dropped (?att a w)))"
    by (intro ext) (simp add: fetchAssetFile_p0_once)
  then show ?thesis
    using for_of_dropped [of ?att "asset_request_p0 l" "asset_outputPath l"
        "\<lparr>retries = 5, minTimeout = 1000\<rparr>" as w]
    by (simp add: baseFetchFile_p0_keeps baseFetchFile_p0_paths asset_path_parameter
        asset_request_p0_def)
qed

lemma main_asset_mode:
  assumes ri: "read_inputs pf = Inr l"
    and gr: "getRelease (octokit l)
               \<lparr>owner = owner (repository l), repo = repo (repository l),
                version = release_version l\<rparr> w = (Inr release, w1)"
    and mode: "\<not> onlySourceZip l"
    and flt: "Array_filter (assetFilterFn pf l) (assets (data release)) = Inr matched"
  shows "main pf w =
     (if matched = []
      then (Inl (Error ''Could not find asset id''),
            core_warning (''Value onlySourceZip '' @ boolean_text (onlySourceZip l)) w1)
      else (case for_of (\<lambda>a. fetchAssetFile pf (octokit l) (asset_parameters l a)) matched
                   (core_warning (''Value onlySourceZip '' @ boolean_text (onlySourceZip l)) w1) of
              (Inl e, w3) \<Rightarrow> (Inl e, w3)
            | (Inr u, w3) \<Rightarrow> (Inr (), printOutput release w3)))"
  by (simp add: main_def main_with_def orThrow_def ri gr mode flt Let_def)

lemma main_p0_asset_mode:
  assumes ri: "read_inputs pf = Inr l"
    and gr: "getRelease (octokit l)
               \<lparr>owner = owner (repository l), repo = repo (repository l),
                version = release_version l\<rparr> w = (Inr release, w1)"
    and mode: "\<not> onlySourceZip l"
    and flt: "Array_filter (assetFilterFn pf l) (assets (data release)) = Inr matched"
  shows "main_p0 pf w =
     (if matched = [] then (Inl (Error ''Could not find asset id''), w1)
      else (case for_of (\<lambda>a. fetchAssetFile_p0 pf (octokit l) (asset_parameters l a)) matched w1 of
              (Inl e, w3) \<Rightarrow> (Inl e, w3)
            | (Inr u, w3) \<Rightarrow> (Inr (), printOutput release w3)))"
  by (simp add: main_p0_def main_p0_with_def orThrow_def ri gr mode flt)

text \<open>
  What a run in asset mode does, for \<open>run\<close> one of the two variants of \<open>main\<close> and \<open>rq\<close>
  the request it sends for an asset.
\<close>

lemma asset_mode_run:
  assumes variant: "(run = main \<and> rq = asset_request) \<or> (run = main_p0 \<and> rq = asset_request_p0)"
    and ri: "read_inputs pf = Inr l"
    and gr: "getRelease (octokit l)
               \<lparr>owner = owner (repository l), repo = repo (repository l),
                version = release_version l\<rparr> w = (Inr release, w1)"
    and mode: "\<not> onlySourceZip l"
    and flt: "Array_filter (assetFilterFn pf l) (assets (data release)) = Inr matched"
  shows "(matched = [] \<longrightarrow>
            fst (run pf w) = Inl (Error ''Could not find asset id'')
            \<and> fetched (snd (run pf w)) = fetched w
            \<and> floating (snd (run pf w)) = floating w
            \<and> written (snd (run pf w)) = written w
            \<and> outputs (snd (run pf w)) = outputs w)
       \<and> (matched \<noteq> [] \<longrightarrow>
            fst (run pf w) = Inr ()
            \<and> fetched (snd (run pf w)) = fetched w @ map (rq l) matched
            \<and> (\<exists>rs. length rs = length matched
                 \<and> floating (snd (run pf w)) = floating w @ rs
                 \<and> map fst (written (snd (run pf w)))
                     = map fst (written w)
                       @ map (\<lambda>ar. asset_outputPath l (fst ar))
                           (filter (\<lambda>ar. snd ar = Inr ()) (zip matched rs))))"
proof -
  note k = getRelease_keeps [OF gr]
  from variant show ?thesis
  proof
    assume v: "run = main \<and> rq = asset_request"
    let ?w2 = "core_warning (''Value onlySourceZip '' @ boolean_text (onlySourceZip l)) w1"
    have k2: "fetched ?w2 = fetched w" "floating ?w2 = floating w" "written ?w2 = written w"
      "outputs ?w2 = outputs w"
      using k by (simp_all add: core_warning_def)
    obtain w3 rs where
      loop: "for_of (\<lambda>a. fetchAssetFile pf (octokit l) (asset_parameters l a)) matched ?w2 = (Inr (), w3)"
      and eff: "fetched w3 = fetched ?w2 @ map (asset_request l) matched"
        "floating w3 = floating ?w2 @ rs" "length rs = length matched"
        "map fst (written w3)
           = map fst (written ?w2)
             @ map (\<lambda>ar. asset_outputPath l (fst ar)) (filter (\<lambda>ar. snd ar = Inr ()) (zip matched rs))"
      using asset_loop [of pf l matched ?w2] by blast
    have m: "main pf w =
       (if matched = [] then (Inl (Error ''Could not find asset id''), ?w2)
        else (Inr (), printOutput release w3))"
      unfolding main_asset_mode [OF ri gr mode flt] loop by simp
    show ?thesis
    proof (cases "matched = []")
      case True
      with m v k2 show ?thesis by simp
    next
      case False
      with m v k2 eff show ?thesis
        by (auto simp: printOutput_keeps intro: exI [of _ rs])
    qed
  next
    assume v: "run = main_p0 \<and> rq = asset_request_p0"
    obtain w3 rs where
      loop: "for_of (\<lambda>a. fetchAssetFile_p0 pf (octokit l) (asset_parameters l a)) matched w1 = (Inr (), w3)"
      and eff: "fetched w3 = fetched w1 @ map (asset_request_p0 l) matched"
        "floating w3 = floating w1 @ rs" "length rs = length matched"
        "map fst (written w3)
           = map fst (written w1)
             @ map (\<lambda>ar. asset_outputPath l (fst ar)) (filter (\<lambda>ar. snd ar = Inr ()) (zip matched rs))"
      using asset_loop_p0 [of pf l matched w1] by blast
    have m: "main_p0 pf w =
       (if matched = [] then (Inl (Error ''Could not find asset id''), w1)
        else (Inr (), printOutput release w3))"
      unfolding main_p0_asset_mode [OF ri gr mode flt] loop by simp
    show ?thesis
    proof (cases "matched = []")
      case True
      with m v k show ?thesis by simp
    next
      case False
      with m v k eff show ?thesis
        by (auto simp: printOutput_keeps intro: exI [of _ rs])
    qed
  qed
qed

lemmas example_defs =
  read_inputs_def andThen_def core_getInput_def core_getBooleanInput_def example_platform_def
  example_inputs_def example_locals_def getRepo_def trim_def isStrWhiteSpaceChar_def



lemma example_getRelease:
  "getRelease (octokit (example_locals f t r z))
     \<lparr>owner = owner (repository (example_locals f t r z)),
      repo = repo (repository (example_locals f t r z)),
      version = release_version (example_locals f t r z)\<rparr> empty_world
   = (Inr example_release, empty_world\<lparr>rest_calls := [repos_getLatestRelease ''octo'' ''tool'']\<rparr>)"
  by (simp add: getRelease_def octokit_rest_def example_locals_def example_octokit_def
      empty_world_def)



text \<open>The run in archive mode, as one equation for each variant.\<close>

lemma main_archive_mode:
  assumes ri: "read_inputs pf = Inr l"
    and gr: "getRelease (octokit l)
               \<lparr>owner = owner (repository l), repo = repo (repository l),
                version = release_version l\<rparr> w = (Inr release, w1)"
    and mode: "onlySourceZip l"
  shows "main pf w =
     (Inr (), printOutput release
        (dropped (baseFetchFile pf
           [(''outputPath'', PString (target l)),
            (''owner'', PString (owner (repository l))),
            (''repo'', PString (repo (repository l))),
            (''token'', PString (token l))]
           \<lparr>request_method = ''GET'', url = or_else (zipball_url (data release)) [],
            headers = None, body = None\<rparr>
           (core_warning (''Download zipball_url '' @ zipball_text (zipball_url (data release)))
              (core_warning (''Value onlySourceZip '' @ boolean_text (onlySourceZip l)) w1)))))"
  by (simp add: main_def main_with_def orThrow_def ri gr mode Let_def fetchSourceFile_once)

lemma main_p0_archive_mode:
  assumes ri: "read_inputs pf = Inr l"
    and gr: "getRelease (octokit l)
               \<lparr>owner = owner (repository l), repo = repo (repository l),
                version = release_version l\<rparr> w = (Inr release, w1)"
    and mode: "onlySourceZip l"
  shows "main_p0 pf w =
     (Inr (), printOutput release
        (dropped (baseFetchFile_p0 pf
           [(''token'', PString (token l)),
            (''outputPath'', PString (target l @ file' l @ ''.zip''))]
           \<lparr>request_method = ''GET'', url = or_else (zipball_url (data release)) [],
            headers = Some [(''accept'', ''application/vnd.github.v3+json'')],
            body = None\<rparr> w1)))"
  by (simp add: main_p0_def main_p0_with_def orThrow_def ri gr mode fetchSourceFile_p0_once)

lemma archive_mode_run:
  assumes variant: "(run = main \<and> path = target l)
                    \<or> (run = main_p0 \<and> path = target l @ file' l @ ''.zip'')"
    and ri: "read_inputs pf = Inr l"
    and gr: "getRelease (octokit l)
               \<lparr>owner = owner (repository l), repo = repo (repository l),
                version = release_version l\<rparr> w = (Inr release, w1)"
    and mode: "onlySourceZip l"
  shows "fst (run pf w) = Inr ()
     \<and> (\<exists>rq r. fetched (snd (run pf w)) = fetched w @ [rq]
            \<and> req_url rq = or_else (zipball_url (data release)) []
            \<and> req_method rq = ''GET''
            \<and> floating (snd (run pf w)) = floating w @ [r]
            \<and> map fst (written (snd (run pf w)))
                = map fst (written w) @ (if r = Inr () then [path] else []))"
proof -
  note k = getRelease_keeps [OF gr]
  have "\<exists>res rq. run pf w = (Inr (), printOutput release (dropped res))
          \<and> fetched (snd res) = fetched w @ [rq]
          \<and> req_url rq = or_else (zipball_url (data release)) []
          \<and> req_method rq = ''GET''
          \<and> floating (snd res) = floating w
          \<and> map fst (written (snd res))
              = map fst (written w) @ (if fst res = Inr () then [path] else [])"
    using variant
  proof
    assume v: "run = main \<and> path = target l"
    let ?ps = "[(''outputPath'', PString (target l)),
            (''owner'', PString (owner (repository l))),
            (''repo'', PString (repo (repository l))),
            (''token'', PString (token l))]"
    let ?ep = "\<lparr>request_method = ''GET'', url = or_else (zipball_url (data release)) [],
            headers = None, body = None\<rparr>"
    let ?w3 = "core_warning (''Download zipball_url '' @ zipball_text (zipball_url (data release)))
              (core_warning (''Value onlySourceZip '' @ boolean_text (onlySourceZip l)) w1)"
    have k3: "fetched ?w3 = fetched w" "floating ?w3 = floating w" "written ?w3 = written w"
      using k by (simp_all add: core_warning_def)
    have p: "get_prop ?ps ''outputPath'' = PString (target l)"
      by (simp add: get_prop_def)
    show ?thesis
    proof (intro exI conjI)
      show "run pf w = (Inr (), printOutput release (dropped (baseFetchFile pf ?ps ?ep ?w3)))"
        using v main_archive_mode [OF ri gr mode] by simp
      show "fetched (snd (baseFetchFile pf ?ps ?ep ?w3)) = fetched w @ [fetch_request ?ps ?ep]"
        using baseFetchFile_keeps [of pf ?ps ?ep ?w3] k3 by simp
      show "req_url (fetch_request ?ps ?ep) = or_else (zipball_url (data release)) []"
        by (simp add: fetch_request_def)
      show "req_method (fetch_request ?ps ?ep) = ''GET''"
        by (simp add: fetch_request_def)
      show "floating (snd (baseFetchFile pf ?ps ?ep ?w3)) = floating w"
        using baseFetchFile_keeps [of pf ?ps ?ep ?w3] k3 by simp
      show "map fst (written (snd (baseFetchFile pf ?ps ?ep ?w3)))
              = map fst (written w)
                @ (if fst (baseFetchFile pf ?ps ?ep ?w3) = Inr () then [path] else [])"
        using baseFetchFile_paths [OF p, of pf ?ep ?w3] k3 v by simp
    qed
  next
    assume v: "run = main_p0 \<and> path = target l @ file' l @ ''.zip''"
    let ?ps = "[(''token'', PString (token l)),
            (''outputPath'', PString (target l @ file' l @ ''.zip''))]"
    let ?ep = "\<lparr>request_method = ''GET'', url = or_else (zipball_url (data release)) [],
            headers = Some [(''accept'', ''application/vnd.github.v3+json'')],
            body = None\<rparr>"
    have p: "get_prop ?ps ''outputPath'' = PString (target l @ file' l @ ''.zip'')"
      by (simp add: get_prop_def)
    show ?thesis
    proof (intro exI conjI)
      show "run pf w = (Inr (), printOutput release (dropped (baseFetchFile_p0 pf ?ps ?ep w1)))"
        using v main_p0_archive_mode [OF ri gr mode] by simp
      show "fetched (snd (baseFetchFile_p0 pf ?ps ?ep w1)) = fetched w @ [fetch_request_p0 ?ps ?ep]"
        using baseFetchFile_p0_keeps [of pf ?ps ?ep w1] k by simp
      show "req_url (fetch_request_p0 ?ps ?ep) = or_else (zipball_url (data release)) []"
        by (simp add: fetch_request_p0_def)
      show "req_method (fetch_request_p0 ?ps ?ep) = ''GET''"
        by (simp add: fetch_request_p0_def)
      show "floating (snd (baseFetchFile_p0 pf ?ps ?ep w1)) = floating w"
        using baseFetchFile_p0_keeps [of pf ?ps ?ep w1] k by simp
      show "map fst (written (snd (baseFetchFile_p0 pf ?ps ?ep w1)))
              = map fst (written w)
                @ (if fst (baseFetchFile_p0 pf ?ps ?ep w1) = Inr () then [path] else [])"
        using baseFetchFile_p0_paths [OF p, of pf ?ep w1] k v by simp
    qed
  qed
  then obtain res rq where
    m: "run pf w = (Inr (), printOutput release (dropped res))"
    and e: "fetched (snd res) = fetched w @ [rq]"
      "req_url rq = or_else (zipball_url (data release)) []"
      "req_method rq = ''GET''"
      "floating (snd res) = floating w"
      "map fst (written (snd res)) = map fst (written w) @ (if fst res = Inr () then [path] else [])"
    by blast
  show ?thesis
  proof (intro conjI exI [of _ rq] exI [of _ "fst res"])
    show "fst (run pf w) = Inr ()" by (simp add: m)
    show "fetched (snd (run pf w)) = fetched w @ [rq]"
      by (simp add: m printOutput_keeps dropped_def e)
    show "req_url rq = or_else (zipball_url (data release)) []" by (rule e)
    show "req_method rq = ''GET''" by (rule e)
    show "floating (snd (run pf w)) = floating w @ [fst res]"
      by (simp add: m printOutput_keeps dropped_def e)
    show "map fst (written (snd (run pf w)))
            = map fst (written w) @ (if fst res = Inr () then [path] else [])"
      using e by (simp add: m printOutput_keeps dropped_def)
  qed
qed





lemma example_read_default:
  "read_inputs (example_platform (example_inputs ''app.zip'' [] ''false'' ''false'') srv)
     = Inr (example_locals ''app.zip'' [] False False)"
  by (simp add: example_defs)

text \<open>
  C9. When the \<open>target\<close> input is empty (after trimming), the target that \<open>main\<close> works
  with is the \<open>file\<close> input. So in asset mode without \<open>regex\<close> every matched asset has the
  name asked for and every path written is that name; with \<open>regex\<close> the path is the file
  input followed by the asset name; and in archive mode the path is built from the file
  input in place of the target.
\<close>

theorem target_defaults_to_file:
  "read_inputs pf = Inr l \<Longrightarrow>
   trim (inputs pf ''target'') = [] \<Longrightarrow>
   target l = file' l
   \<and> (\<forall>a. asset_outputPath l a = (if usesRegex l then file' l @ asset_name a else file' l))
   \<and> (\<forall>run rq w release w1 matched.
         ((run = main \<and> rq = asset_request) \<or> (run = main_p0 \<and> rq = asset_request_p0))
         \<and> getRelease (octokit l)
               \<lparr>owner = owner (repository l), repo = repo (repository l),
                version = release_version l\<rparr> w = (Inr release, w1)
         \<and> \<not> onlySourceZip l \<and> \<not> usesRegex l
         \<and> Array_filter (assetFilterFn pf l) (assets (data release)) = Inr matched \<longrightarrow>
         (\<forall>a \<in> set matched. asset_name a = file' l)
         \<and> (\<exists>rs. length rs = length matched
              \<and> floating (snd (run pf w)) = floating w @ rs
              \<and> map fst (written (snd (run pf w)))
                  = map fst (written w)
                    @ map (\<lambda>ar. file' l) (filter (\<lambda>ar. snd ar = Inr ()) (zip matched rs))))
   \<and> (\<forall>run path w release w1.
         ((run = main \<and> path = file' l) \<or> (run = main_p0 \<and> path = file' l @ file' l @ ''.zip''))
         \<and> getRelease (octokit l)
               \<lparr>owner = owner (repository l), repo = repo (repository l),
                version = release_version l\<rparr> w = (Inr release, w1)
         \<and> onlySourceZip l \<longrightarrow>
         (\<exists>r. floating (snd (run pf w)) = floating w @ [r]
              \<and> map fst (written (snd (run pf w)))
                  = map fst (written w) @ (if r = Inr () then [path] else [])))"
proof -
  assume ri: "read_inputs pf = Inr l" and empty: "trim (inputs pf ''target'') = []"
  have t: "target l = file' l"
    using read_inputs_target [OF ri] empty by simp
  have paths: "\<forall>a. asset_outputPath l a = (if usesRegex l then file' l @ asset_name a else file' l)"
    by (simp add: asset_outputPath_def t)
  have asset: "\<forall>run rq w release w1 matched.
         ((run = main \<and> rq = asset_request) \<or> (run = main_p0 \<and> rq = asset_request_p0))
         \<and> getRelease (octokit l)
               \<lparr>owner = owner (repository l), repo = repo (repository l),
                version = release_version l\<rparr> w = (Inr release, w1)
         \<and> \<not> onlySourceZip l \<and> \<not> usesRegex l
         \<and> Array_filter (assetFilterFn pf l) (assets (data release)) = Inr matched \<longrightarrow>
         (\<forall>a \<in> set matched. asset_name a = file' l)
         \<and> (\<exists>rs. length rs = length matched
              \<and> floating (snd (run pf w)) = floating w @ rs
              \<and> map fst (written (snd (run pf w)))
                  = map fst (written w)
                    @ map (\<lambda>ar. file' l) (filter (\<lambda>ar. snd ar = Inr ()) (zip matched rs)))"
  proof (intro allI impI)
    fix run rq w release w1 matched
    assume h: "((run = main \<and> rq = asset_request) \<or> (run = main_p0 \<and> rq = asset_request_p0))
         \<and> getRelease (octokit l)
               \<lparr>owner = owner (repository l), repo = repo (repository l),
                version = release_version l\<rparr> w = (Inr release, w1)
         \<and> \<not> onlySourceZip l \<and> \<not> usesRegex l
         \<and> Array_filter (assetFilterFn pf l) (assets (data release)) = Inr matched"
    then have exact: "\<not> usesRegex l" by simp
    from h Array_filter_exact [OF exact, of pf "assets (data release)"]
    have names: "\<forall>a \<in> set matched. asset_name a = file' l" by auto
    from h have v: "(run = main \<and> rq = asset_request) \<or> (run = main_p0 \<and> rq = asset_request_p0)"
      and gr: "getRelease (octokit l)
               \<lparr>owner = owner (repository l), repo = repo (repository l),
                version = release_version l\<rparr> w = (Inr release, w1)"
      and mode: "\<not> onlySourceZip l"
      and flt: "Array_filter (assetFilterFn pf l) (assets (data release)) = Inr matched"
      by simp_all
    note run = asset_mode_run [OF v ri gr mode flt]
    have "\<exists>rs. length rs = length matched
              \<and> floating (snd (run pf w)) = floating w @ rs
              \<and> map fst (written (snd (run pf w)))
                  = map fst (written w)
                    @ map (\<lambda>ar. file' l) (filter (\<lambda>ar. snd ar = Inr ()) (zip matched rs))"
    proof (cases "matched = []")
      case True
      with run have "written (snd (run pf w)) = written w" "floating (snd (run pf w)) = floating w"
        by simp_all
      with True show ?thesis by simp
    next
      case False
      with run have "\<exists>rs. length rs = length matched
                 \<and> floating (snd (run pf w)) = floating w @ rs
                 \<and> map fst (written (snd (run pf w)))
                     = map fst (written w)
                       @ map (\<lambda>ar. asset_outputPath l (fst ar))
                           (filter (\<lambda>ar. snd ar = Inr ()) (zip matched rs))"
        by simp
      then show ?thesis
      proof (elim exE conjE)
        fix rs
        assume len: "length rs = length matched"
          and fl: "floating (snd (run pf w)) = floating w @ rs"
          and wr: "map fst (written (snd (run pf w)))
                   = map fst (written w)
                     @ map (\<lambda>ar. asset_outputPath l (fst ar))
                         (filter (\<lambda>ar. snd ar = Inr ()) (zip matched rs))"
        from wr exact have "map fst (written (snd (run pf w)))
                  = map fst (written w)
                    @ map (\<lambda>ar. file' l) (filter (\<lambda>ar. snd ar = Inr ()) (zip matched rs))"
          by (simp add: asset_outputPath_def t)
        with len fl show ?thesis
          by (intro exI [of _ rs] conjI)
      qed
    qed
    with names show "(\<forall>a \<in> set matched. asset_name a = file' l)
         \<and> (\<exists>rs. length rs = length matched
              \<and> floating (snd (run pf w)) = floating w @ rs
              \<and> map fst (written (snd (run pf w)))
                  = map fst (written w)
                    @ map (\<lambda>ar. file' l) (filter (\<lambda>ar. snd ar = Inr ()) (zip matched rs)))"
      by simp
  qed
  have archive: "\<forall>run path w release w1.
         ((run = main \<and> path = file' l) \<or> (run = main_p0 \<and> path = file' l @ file' l @ ''.zip''))
         \<and> getRelease (octokit l)
               \<lparr>owner = owner (repository l), repo = repo (repository l),
                version = release_version l\<rparr> w = (Inr release, w1)
         \<and> onlySourceZip l \<longrightarrow>
         (\<exists>r. floating (snd (run pf w)) = floating w @ [r]
              \<and> map fst (written (snd (run pf w)))
                  = map fst (written w) @ (if r = Inr () then [path] else []))"
  proof (intro allI impI)
    fix run path w release w1
    assume h: "((run = main \<and> path = file' l) \<or> (run = main_p0 \<and> path = file' l @ file' l @ ''.zip''))
         \<and> getRelease (octokit l)
               \<lparr>owner = owner (repository l), repo = repo (repository l),
                version = release_version l\<rparr> w = (Inr release, w1)
         \<and> onlySourceZip l"
    then have v: "(run = main \<and> path = target l)
                  \<or> (run = main_p0 \<and> path = target l @ file' l @ ''.zip'')"
      by (simp add: t)
    from h have gr: "getRelease (octokit l)
               \<lparr>owner = owner (repository l), repo = repo (repository l),
                version = release_version l\<rparr> w = (Inr release, w1)"
      and mode: "onlySourceZip l"
      by simp_all
    from archive_mode_run [OF v ri gr mode]
    have "\<exists>rq r. fetched (snd (run pf w)) = fetched w @ [rq]
            \<and> req_url rq = or_else (zipball_url (data release)) []
            \<and> req_method rq = ''GET''
            \<and> floating (snd (run pf w)) = floating w @ [r]
            \<and> map fst (written (snd (run pf w)))
                = map fst (written w) @ (if r = Inr () then [path] else [])"
      by (rule conjunct2)
    then show "\<exists>r. floating (snd (run pf w)) = floating w @ [r]
              \<and> map fst (written (snd (run pf w)))
                  = map fst (written w) @ (if r = Inr () then [path] else [])"
    proof (elim exE conjE)
      fix rq r
      assume "floating (snd (run pf w)) = floating w @ [r]"
        and "map fst (written (snd (run pf w)))
                = map fst (written w) @ (if r = Inr () then [path] else [])"
      then show ?thesis
        by (intro exI [of _ r] conjI)
    qed
  qed
  show ?thesis
    by (intro conjI) (rule t, rule paths, rule asset, rule archive)
qed

theorem target_defaults_to_file_witness:
  "trim (inputs (example_platform (example_inputs ''app.zip'' [] ''false'' ''false'') server_ok)
           ''target'') = []
   \<and> target (example_locals ''app.zip'' [] False False) = ''app.zip''
   \<and> map fst (written (snd (main_p0
          (example_platform (example_inputs ''app.zip'' [] ''false'' ''false'') server_ok)
          empty_world))) = [''app.zip'']"
proof -
  let ?P = "example_platform (example_inputs ''app.zip'' [] ''false'' ''false'') server_ok"
  let ?L = "example_locals ''app.zip'' [] False False"
  let ?w1 = "empty_world\<lparr>rest_calls := [repos_getLatestRelease ''octo'' ''tool'']\<rparr>"
  let ?a1 = "\<lparr>asset_id = 1, asset_name = ''app.zip''\<rparr>"
  have empty: "trim (inputs ?P ''target'') = []"
    by (simp add: example_platform_def example_inputs_def trim_def)
  have name: "file' ?L = ''app.zip''" and mode: "\<not> onlySourceZip ?L" "\<not> usesRegex ?L"
    by (simp_all add: example_locals_def)
  have flt: "Array_filter (assetFilterFn ?P ?L) (assets (data example_release)) = Inr [?a1]"
    by (simp add: assetFilterFn_def filterByFileName_def example_locals_def example_release_def)
  have started: "floating (snd (main_p0 ?P empty_world)) = [Inr ()]"
    by code_simp
  note T = target_defaults_to_file [OF example_read_default [of server_ok] empty]
  from T have t: "target ?L = file' ?L"
    by (rule conjunct1)
  have hyps: "((main_p0 = main \<and> asset_request_p0 = asset_request)
                 \<or> (main_p0 = main_p0 \<and> asset_request_p0 = asset_request_p0))
         \<and> getRelease (octokit ?L)
               \<lparr>owner = owner (repository ?L), repo = repo (repository ?L),
                version = release_version ?L\<rparr> empty_world = (Inr example_release, ?w1)
         \<and> \<not> onlySourceZip ?L \<and> \<not> usesRegex ?L
         \<and> Array_filter (assetFilterFn ?P ?L) (assets (data example_release)) = Inr [?a1]"
    using example_getRelease [of "''app.zip''" "[]" False False] mode flt by simp
  from T [THEN conjunct2, THEN conjunct2, THEN conjunct1, rule_format,
      of main_p0 asset_request_p0 empty_world example_release ?w1 "[?a1]", OF hyps]
  have "\<exists>rs. length rs = length [?a1]
          \<and> floating (snd (main_p0 ?P empty_world)) = floating empty_world @ rs
          \<and> map fst (written (snd (main_p0 ?P empty_world)))
              = map fst (written empty_world)
                @ map (\<lambda>ar. file' ?L) (filter (\<lambda>ar. snd ar = Inr ()) (zip [?a1] rs))"
    by (rule conjunct2)
  then have "map fst (written (snd (main_p0 ?P empty_world))) = [''app.zip'']"
  proof (elim exE conjE)
    fix rs
    assume "floating (snd (main_p0 ?P empty_world)) = floating empty_world @ rs"
      and wr: "map fst (written (snd (main_p0 ?P empty_world)))
              = map fst (written empty_world)
                @ map (\<lambda>ar. file' ?L) (filter (\<lambda>ar. snd ar = Inr ()) (zip [?a1] rs))"
    with started have "rs = [Inr ()]"
      by (simp add: empty_world_def)
    with wr name show ?thesis
      by (simp add: empty_world_def)
  qed
  with empty t name show ?thesis by simp
qed

section \<open>Download failures\<close>

text \<open>
  Whatever the server answers, each of the four downloaders resolves with the options
  object after one request and no sleep.
\<close>

lemma downloaders_attempt_once:
  "fst (fetchAssetFile pf client ps w) = Inr \<lparr>retries = 5, minTimeout = 1000\<rparr>
   \<and> length (fetched (snd (fetchAssetFile pf client ps w))) = Suc (length (fetched w))
   \<and> sleeps (snd (fetchAssetFile pf client ps w)) = sleeps w"
  "fst (fetchAssetFile_p0 pf client ps w) = Inr \<lparr>retries = 5, minTimeout = 1000\<rparr>
   \<and> length (fetched (snd (fetchAssetFile_p0 pf client ps w))) = Suc (length (fetched w))
   \<and> sleeps (snd (fetchAssetFile_p0 pf client ps w)) = sleeps w"
  "fst (fetchSourceFile pf ps u w) = Inr \<lparr>retries = 5, minTimeout = 1000\<rparr>
   \<and> length (fetched (snd (fetchSourceFile pf ps u w))) = Suc (length (fetched w))
   \<and> sleeps (snd (fetchSourceFile pf ps u w)) = sleeps w"
  "fst (fetchSourceFile_p0 pf u path tok w) = Inr \<lparr>retries = 5, minTimeout = 1000\<rparr>
   \<and> length (fetched (snd (fetchSourceFile_p0 pf u path tok w))) = Suc (length (fetched w))
   \<and> sleeps (snd (fetchSourceFile_p0 pf u path tok w)) = sleeps w"
  by (simp_all add: fetchAssetFile_once fetchAssetFile_p0_once fetchSourceFile_once
      fetchSourceFile_p0_once dropped_def baseFetchFile_keeps baseFetchFile_p0_keeps)

text \<open>
  C1 at a failing input. Against a server that answers every request with an error, and
  against one that answers only the first request with an error, each of the four
  downloaders makes one attempt, sleeps never, resolves with the options object and
  leaves the failed attempt as a dropped promise; nothing is written, though a second
  attempt at the second server would have ended well.
\<close>

theorem retry_policy_not_applied:
  "(let ps = [(''id'', PNumber 1), (''outputPath'', PString ''out/app.zip''),
              (''owner'', PString ''octo''), (''repo'', PString ''tool''),
              (''token'', PString ''secret'')];
        expected = (\<lambda>rw. fst rw = Inr \<lparr>retries = 5, minTimeout = 1000\<rparr>
                          \<and> length (fetched (snd rw)) = 1
                          \<and> sleeps (snd rw) = []
                          \<and> floating (snd rw) = [Inl (Error ''Invalid response'')]
                          \<and> written (snd rw) = [])
    in list_all (\<lambda>srv.
         expected (fetchAssetFile (example_platform (\<lambda>n. []) srv) example_octokit ps empty_world)
         \<and> expected (fetchAssetFile_p0 (example_platform (\<lambda>n. []) srv) example_octokit ps empty_world)
         \<and> expected (fetchSourceFile (example_platform (\<lambda>n. []) srv) ps ''https://host/zip'' empty_world)
         \<and> expected (fetchSourceFile_p0 (example_platform (\<lambda>n. []) srv) ''https://host/zip''
                       ''out/app.zip'' ''secret'' empty_world))
       [server_down, server_recovers])"
  by code_simp






end
